theory Spec2Isabelle
  imports Complex_Main "HOL-Library.List_Lexorder" "HOL-Library.Char_ord"
begin

section \<open>Data model: cells, columns, frames, timestamps\<close>

text \<open>
  The notebook \<^verbatim>\<open>model.ipynb\<close> works on pandas data frames read from CSV files.
  A cell is a number, a string or the missing value \<open>NaN\<close>. A column has a name, a
  dtype and its cells; a frame is an index (one label per row) and a list of columns.
  Numbers are idealised as reals.
\<close>

datatype cell = NaN | Num real | Str string

datatype dtype = Int64 | Float64 | Object

datatype error = KeyError string | ValueError string | AttributeError string | TypeError string

record column =
  cname :: string
  dtype :: dtype
  cells :: "cell list"

record 'i frame =
  index :: "'i list"
  columns :: "column list"

text \<open>
  A parsed timestamp: the calendar day as a day number, and the time of day. The
  accessor \<^verbatim>\<open>DatetimeIndex.hour\<close> is the field \<open>hour\<close>.
\<close>

record stamp =
  date :: int
  hour :: nat
  minute :: nat
  second :: nat

text \<open>Every column of a data frame has one cell per row.\<close>

definition wf_frame :: "'i frame \<Rightarrow> bool" where
  "wf_frame df = list_all (\<lambda>c. length (cells c) = length (index df)) (columns df)"

definition lookup_col :: "string \<Rightarrow> column list \<Rightarrow> column option" where
  "lookup_col n cs = find (\<lambda>c. cname c = n) cs"

section \<open>Errors\<close>

text \<open>
  An exception is a value: a step returns \<open>Inl\<close> of the error it raises or \<open>Inr\<close> of
  its result. Errors propagate: the first failing step ends the computation.
\<close>

definition and_then :: "error + 'a \<Rightarrow> ('a \<Rightarrow> error + 'b) \<Rightarrow> error + 'b" where
  "and_then r f = (case r of Inl e \<Rightarrow> Inl e | Inr x \<Rightarrow> f x)"

fun sequence :: "(error + 'a) list \<Rightarrow> error + 'a list" where
  "sequence [] = Inr []"
| "sequence (r # rs) =
     (case r of
        Inl e \<Rightarrow> Inl e
      | Inr x \<Rightarrow> (case sequence rs of Inl e \<Rightarrow> Inl e | Inr xs \<Rightarrow> Inr (x # xs)))"

section \<open>Handle missing values\<close>

text \<open>
  \<^verbatim>\<open>dataset.set_index('Dato + Tid')\<close>: the named column becomes the index and leaves
  the columns; \<open>KeyError\<close> when there is no such column.
\<close>

definition set_index :: "string \<Rightarrow> 'i frame \<Rightarrow> error + cell frame" where
  "set_index n df =
     (case lookup_col n (columns df) of
        None \<Rightarrow> Inl (KeyError n)
      | Some c \<Rightarrow>
          Inr \<lparr>index = cells c, columns = filter (\<lambda>c. cname c \<noteq> n) (columns df)\<rparr>)"

text \<open>
  \<^verbatim>\<open>dataset.index = pd.to_datetime(dataset.index, format="%Y-%m-%d %H:%M:%S")\<close>.
  A missing label becomes the missing timestamp \<^verbatim>\<open>NaT\<close> (\<open>None\<close> here) and nothing is
  raised for it. The parser of a label that is there is pandas' and is a parameter:
  \<open>None\<close> is a label it rejects, and then the call raises \<open>ValueError\<close>.
\<close>

definition parse_label :: "(cell \<Rightarrow> stamp option) \<Rightarrow> cell \<Rightarrow> error + stamp option" where
  "parse_label parse c =
     (case c of
        NaN \<Rightarrow> Inr None
      | _ \<Rightarrow>
          (case parse c of
             None \<Rightarrow> Inl (ValueError ''time data does not match format'')
           | Some t \<Rightarrow> Inr (Some t)))"

definition to_datetime ::
  "(cell \<Rightarrow> stamp option) \<Rightarrow> cell frame \<Rightarrow> error + stamp option frame" where
  "to_datetime parse df =
     and_then (sequence (map (parse_label parse) (index df)))
       (\<lambda>ts. Inr \<lparr>index = ts, columns = columns df\<rparr>)"

text \<open>
  \<^verbatim>\<open>fillna(method='ffill')\<close> on one series: a missing cell takes the last value seen
  before it; \<open>prev\<close> is that value (missing at the start).
\<close>

fun ffill :: "cell \<Rightarrow> cell list \<Rightarrow> cell list" where
  "ffill prev [] = []"
| "ffill prev (c # cs) = (if c = NaN then prev # ffill prev cs else c # ffill c cs)"

text \<open>
  \<^verbatim>\<open>groupby(keys)\<close>: the rows are split by key. A row whose key is missing is in no
  group (\<^verbatim>\<open>dropna=True\<close> is the default). The groups are taken in the order of their
  keys, and a group keeps its rows in the order they have in the frame: nothing is
  sorted by the index.
\<close>

definition group_keys :: "('k::linorder) option list \<Rightarrow> 'k list" where
  "group_keys keys =
     sort (remdups (concat (map (\<lambda>k. case k of None \<Rightarrow> [] | Some h \<Rightarrow> [h]) keys)))"

definition group_positions :: "'k list \<Rightarrow> 'k \<Rightarrow> nat list" where
  "group_positions keys k = filter (\<lambda>i. keys ! i = k) [0..<length keys]"

text \<open>
  A transformation applied to every group: \<open>groupby_transform f keys xs ! p\<close> is the
  value that row \<open>p\<close> of a column \<open>xs\<close> gets from \<open>f\<close> on the cells of its group. A
  row that is in no group has its own cell there.
\<close>

definition scatter :: "nat list \<Rightarrow> 'a list \<Rightarrow> 'a list \<Rightarrow> 'a list" where
  "scatter pos vals acc = fold (\<lambda>(i, v) a. a[i := v]) (zip pos vals) acc"

definition groupby_transform ::
  "('a list \<Rightarrow> 'a list) \<Rightarrow> ('k::linorder) option list \<Rightarrow> 'a list \<Rightarrow> 'a list" where
  "groupby_transform f keys xs =
     fold (\<lambda>k acc. scatter (group_positions keys k)
                      (f (map (\<lambda>i. xs ! i) (group_positions keys k))) acc)
          (map Some (group_keys keys)) xs"

text \<open>
  The results of the groups are concatenated, group after group: \<open>grouped_order\<close> is
  the list of the rows (their positions in the frame) in that order. pandas then
  restores the order of the frame by the labels of the rows. With pairwise different
  labels that is the order of the frame. When a label repeats and the concatenated
  labels are not those of the frame in their order, it takes the different labels in
  the order of their first row in the frame, and for each of them the rows that carry
  it, in the concatenated order.
\<close>

definition grouped_order :: "('k::linorder) option list \<Rightarrow> nat list" where
  "grouped_order keys = concat (map (\<lambda>k. group_positions keys (Some k)) (group_keys keys))"

definition first_occurrences :: "'a list \<Rightarrow> 'a list" where
  "first_occurrences xs = rev (remdups (rev xs))"

definition restored_order :: "'l list \<Rightarrow> nat list \<Rightarrow> nat list \<Rightarrow> nat list" where
  "restored_order labels grouped kept =
     (if \<not> distinct (map (\<lambda>p. labels ! p) kept) \<and>
         map (\<lambda>p. labels ! p) grouped \<noteq> map (\<lambda>p. labels ! p) kept
      then concat (map (\<lambda>l. filter (\<lambda>p. labels ! p = l) grouped)
                       (first_occurrences (map (\<lambda>p. labels ! p) kept)))
      else kept)"

definition index_of :: "'a \<Rightarrow> 'a list \<Rightarrow> nat" where
  "index_of x xs = length (takeWhile (\<lambda>y. y \<noteq> x) xs)"

text \<open>
  \<^verbatim>\<open>dataset.groupby(dataset.index.hour).fillna(method='ffill')\<close>: every column is
  forward-filled inside the groups of rows that share an hour of day; the hour of a
  missing timestamp is missing, so such a row is in no group.

  When every row has a timestamp, the result has the rows in the restored order, each
  with its label and its filled cells. When a timestamp is missing, pandas puts the
  rows back by position: the frame keeps its index, the \<open>k\<close>-th row of the
  concatenated order receives the cells of the \<open>k\<close>-th row of the restored order, and
  a row that was in no group has all its cells missing (an integer column becomes a
  float column to hold them).
\<close>

definition groupby_hour_ffill :: "stamp option frame \<Rightarrow> stamp option frame" where
  "groupby_hour_ffill df =
     (let keys = map (map_option hour) (index df);
          kept = filter (\<lambda>p. keys ! p \<noteq> None) [0..<length keys];
          grouped = grouped_order keys;
          restored = restored_order (index df) grouped kept
      in if None \<in> set keys
         then \<lparr>index = index df,
               columns =
                 map (\<lambda>c. c\<lparr>dtype := (if dtype c = Int64 then Float64 else dtype c),
                             cells :=
                               map (\<lambda>p. if p \<in> set grouped
                                        then groupby_transform (ffill NaN) keys (cells c)
                                               ! (restored ! index_of p grouped)
                                        else NaN)
                                   [0..<length keys]\<rparr>)
                     (columns df)\<rparr>
         else \<lparr>index = map (\<lambda>p. index df ! p) restored,
               columns =
                 map (\<lambda>c. c\<lparr>cells :=
                               map (\<lambda>p. groupby_transform (ffill NaN) keys (cells c) ! p)
                                   restored\<rparr>)
                     (columns df)\<rparr>)"

text \<open>
  \<^verbatim>\<open>dataset[names] = dataset[names].astype('object')\<close>: \<open>KeyError\<close> when a name is
  not a column; otherwise the named columns change dtype and keep their cells.
\<close>

definition astype_object :: "string list \<Rightarrow> 'i frame \<Rightarrow> error + 'i frame" where
  "astype_object ns df =
     (case filter (\<lambda>n. lookup_col n (columns df) = None) ns of
        m # _ \<Rightarrow> Inl (KeyError m)
      | [] \<Rightarrow>
          Inr (df\<lparr>columns :=
                    map (\<lambda>c. if cname c \<in> set ns then c\<lparr>dtype := Object\<rparr> else c)
                        (columns df)\<rparr>))"

definition handleNullValues ::
  "(cell \<Rightarrow> stamp option) \<Rightarrow> 'i frame \<Rightarrow> error + stamp option frame" where
  "handleNullValues parse dataset =
     and_then (set_index ''Dato + Tid'' dataset) (\<lambda>d1.
     and_then (to_datetime parse d1) (\<lambda>d2.
     astype_object [''Hour'', ''isWeekday'', ''Month''] (groupby_hour_ffill d2)))"

section \<open>Splitting a dataset into features and target\<close>

text \<open>
  \<^verbatim>\<open>df.drop(names, axis=1)\<close>: a new frame without the named columns; \<open>KeyError\<close>
  when a name is not a column.
\<close>

definition drop_columns :: "string list \<Rightarrow> 'i frame \<Rightarrow> error + 'i frame" where
  "drop_columns ns df =
     (case filter (\<lambda>n. n \<notin> set (map cname (columns df))) ns of
        m # _ \<Rightarrow> Inl (KeyError m)
      | [] \<Rightarrow> Inr (df\<lparr>columns := filter (\<lambda>c. cname c \<notin> set ns) (columns df)\<rparr>))"

text \<open>A series: one column together with the labels of its rows.\<close>

record 'i series =
  labels :: "'i list"
  col :: column

text \<open>\<^verbatim>\<open>df.Volum\<close>: the column as a series; \<open>AttributeError\<close> when there is none.\<close>

definition get_attr :: "string \<Rightarrow> 'i frame \<Rightarrow> error + 'i series" where
  "get_attr n df =
     (case lookup_col n (columns df) of
        None \<Rightarrow> Inl (AttributeError n)
      | Some c \<Rightarrow> Inr \<lparr>labels = index df, col = c\<rparr>)"

definition splitSet :: "'i frame \<Rightarrow> error + ('i frame \<times> 'i series)" where
  "splitSet df =
     and_then (drop_columns [''Volum''] df) (\<lambda>X.
     and_then (get_attr ''Volum'' df) (\<lambda>y.
     Inr (X, y)))"

text \<open>
  Putting a series back into a frame, for the statement that \<open>splitSet\<close> loses
  nothing: \<^verbatim>\<open>X.insert(k, name, y)\<close> puts the column at position \<open>k\<close>, and
  \<^verbatim>\<open>X.join(y)\<close> puts it last.
\<close>

definition insert_column :: "nat \<Rightarrow> 'i series \<Rightarrow> 'i frame \<Rightarrow> 'i frame" where
  "insert_column k y X = X\<lparr>columns := take k (columns X) @ col y # drop k (columns X)\<rparr>"

definition join_column :: "'i frame \<Rightarrow> 'i series \<Rightarrow> 'i frame" where
  "join_column X y = X\<lparr>columns := columns X @ [col y]\<rparr>"

section \<open>Preprocessing: one-hot encoding and standardisation\<close>

datatype handle_unknown = Unknown_Error | Unknown_Ignore

text \<open>
  A \<^verbatim>\<open>ColumnTransformer\<close> with a \<^verbatim>\<open>OneHotEncoder\<close> on the categorical features
  and a \<^verbatim>\<open>StandardScaler\<close> on the numeric ones; every other column is dropped.
\<close>

record column_transformer =
  categorical_features :: "string list"
  numeric_features :: "string list"
  unknown :: handle_unknown

definition preprocess :: "'i frame \<Rightarrow> column_transformer" where
  "preprocess X_train =
     \<lparr>categorical_features = [''Hour'', ''isWeekday'', ''Month''],
      numeric_features = [''Globalstraling'', ''Solskinstid'', ''Lufttemperatur''],
      unknown = Unknown_Ignore\<rparr>"

text \<open>
  The fitted transformer: the categories of every categorical feature, and the mean and
  scale of every numeric feature (\<open>None\<close> for a feature with no present value).
\<close>

record fitted_transformer =
  features :: column_transformer
  categories :: "cell list list"
  scaling :: "(real \<times> real) option list"

text \<open>
  The columns a transformer reads, by name. The error for a column that is not there
  is a parameter: fitting raises \<open>ValueError\<close> (the transformer checks its column
  names against the frame), transforming raises \<open>KeyError\<close> (the frame is indexed by
  the names).
\<close>

definition select_columns ::
  "(string \<Rightarrow> error) \<Rightarrow> string list \<Rightarrow> 'i frame \<Rightarrow> error + column list" where
  "select_columns missing ns df =
     sequence (map (\<lambda>n. case lookup_col n (columns df) of
                           None \<Rightarrow> Inl (missing n)
                         | Some c \<Rightarrow> Inr c) ns)"

text \<open>
  The categories of a column: its distinct values in ascending order, a missing value
  last. A column that mixes strings and numbers cannot be ordered.
\<close>

definition unique_sorted :: "cell list \<Rightarrow> error + cell list" where
  "unique_sorted cs =
     (let nums = concat (map (\<lambda>c. case c of Num r \<Rightarrow> [r] | _ \<Rightarrow> []) cs);
          strs = concat (map (\<lambda>c. case c of Str s \<Rightarrow> [s] | _ \<Rightarrow> []) cs)
      in if nums \<noteq> [] \<and> strs \<noteq> []
         then Inl (TypeError ''Encoders require uniformly strings or numbers'')
         else Inr (map Num (sort (remdups nums)) @ map Str (sort (remdups strs)) @
                   (if NaN \<in> set cs then [NaN] else [])))"

text \<open>
  \<^verbatim>\<open>StandardScaler.fit\<close> on one column: mean and standard deviation of the present
  values (divisor \<open>n\<close>); a zero deviation is replaced by 1.
\<close>

definition scaler_fit :: "cell list \<Rightarrow> error + (real \<times> real) option" where
  "scaler_fit cs =
     (if \<exists>c \<in> set cs. case c of Str _ \<Rightarrow> True | _ \<Rightarrow> False
      then Inl (ValueError ''could not convert string to float'')
      else
        (let vals = concat (map (\<lambda>c. case c of Num r \<Rightarrow> [r] | _ \<Rightarrow> []) cs)
         in if vals = [] then Inr None
            else
              (let mean = sum_list vals / real (length vals);
                   var = sum_list (map (\<lambda>v. (v - mean)\<^sup>2) vals) / real (length vals)
               in Inr (Some (mean, if var = 0 then 1 else sqrt var)))))"

text \<open>
  \<^verbatim>\<open>ColumnTransformer.fit\<close>: the column names of both transformers are checked
  first, then the encoder and the scaler are fitted on their columns. Neither accepts a
  frame with no rows.
\<close>

definition ct_fit :: "column_transformer \<Rightarrow> 'i frame \<Rightarrow> error + fitted_transformer" where
  "ct_fit ct X =
     and_then (select_columns ValueError (categorical_features ct) X) (\<lambda>cat_cols.
     and_then (select_columns ValueError (numeric_features ct) X) (\<lambda>num_cols.
     if index X = [] then Inl (ValueError ''Found array with 0 sample(s)'')
     else
       and_then (sequence (map (\<lambda>c. unique_sorted (cells c)) cat_cols)) (\<lambda>cats.
       and_then (sequence (map (\<lambda>c. scaler_fit (cells c)) num_cols)) (\<lambda>stats.
       Inr \<lparr>features = ct, categories = cats, scaling = stats\<rparr>))))"

text \<open>
  One cell through the one-hot encoder: an indicator over the fitted categories. A
  value that is not among them raises under \<^verbatim>\<open>handle_unknown="error"\<close> and gives all
  zeros under \<^verbatim>\<open>handle_unknown="ignore"\<close>.
\<close>

definition encode_cell :: "handle_unknown \<Rightarrow> cell list \<Rightarrow> cell \<Rightarrow> error + real option list" where
  "encode_cell hu cats v =
     (if v \<in> set cats then Inr (map (\<lambda>c. Some (if c = v then 1 else 0)) cats)
      else
        (case hu of
           Unknown_Error \<Rightarrow> Inl (ValueError ''Found unknown categories'')
         | Unknown_Ignore \<Rightarrow> Inr (map (\<lambda>c. Some 0) cats)))"

text \<open>One cell through the scaler; a missing value stays missing.\<close>

definition scale_cell :: "(real \<times> real) option \<Rightarrow> cell \<Rightarrow> error + real option" where
  "scale_cell st v =
     (case v of
        Str _ \<Rightarrow> Inl (ValueError ''could not convert string to float'')
      | NaN \<Rightarrow> Inr None
      | Num r \<Rightarrow> Inr (case st of None \<Rightarrow> None | Some (m, s) \<Rightarrow> Some ((r - m) / s)))"

text \<open>
  \<^verbatim>\<open>ColumnTransformer.transform\<close>, the design matrix: for every row the one-hot
  blocks of the categorical features, in their order, then the scaled numeric features.
  The encoder runs first, on its columns, then the scaler on its own; a frame with no
  rows is refused (\<open>ValueError\<close>).
\<close>

definition ct_transform :: "fitted_transformer \<Rightarrow> 'i frame \<Rightarrow> error + real option list list" where
  "ct_transform ft X =
     and_then (select_columns KeyError (categorical_features (features ft)) X) (\<lambda>cat_cols.
     if index X = [] then Inl (ValueError ''Found array with 0 sample(s)'')
     else
       and_then (sequence (map (\<lambda>(cats, c). sequence (map (encode_cell (unknown (features ft)) cats) (cells c)))
                               (zip (categories ft) cat_cols))) (\<lambda>blocks.
       and_then (select_columns KeyError (numeric_features (features ft)) X) (\<lambda>num_cols.
       and_then (sequence (map (\<lambda>(st, c). sequence (map (scale_cell st) (cells c)))
                               (zip (scaling ft) num_cols))) (\<lambda>scaled.
       Inr (map (\<lambda>i. concat (map (\<lambda>b. b ! i) blocks) @ map (\<lambda>s. s ! i) scaled)
                [0..<length (index X)])))))"

section \<open>Estimators, pipelines and the error measure\<close>

text \<open>
  An estimator of the library is a pair of functions: \<open>fit\<close> from a design matrix and
  the targets to a fitted model, \<open>predict\<close> from a fitted model and a design matrix to
  one prediction per row. Either may raise.
\<close>

record 'm estimator =
  fit :: "real option list list \<Rightarrow> cell list \<Rightarrow> error + 'm"
  predict :: "'m \<Rightarrow> real option list list \<Rightarrow> error + real list"

text \<open>The targets as numbers; a missing or non-numeric target is refused.\<close>

definition numeric_targets :: "cell list \<Rightarrow> error + real list" where
  "numeric_targets cs =
     sequence (map (\<lambda>c. case c of
                           Num r \<Rightarrow> Inr r
                         | _ \<Rightarrow> Inl (ValueError ''Input contains NaN or is not numeric'')) cs)"

text \<open>\<^verbatim>\<open>DummyRegressor(strategy="mean")\<close>: predicts the mean of the training targets.\<close>

definition dummy :: "real estimator" where
  "dummy =
     \<lparr>fit = (\<lambda>X y. and_then (numeric_targets y) (\<lambda>ys.
               if ys = [] then Inl (ValueError ''Found array with 0 sample(s)'')
               else Inr (sum_list ys / real (length ys)))),
      predict = (\<lambda>m X. Inr (map (\<lambda>r. m) X))\<rparr>"

text \<open>
  \<^verbatim>\<open>make_pipeline(preprocessor, model)\<close>: \<open>fit\<close> fits the transformer on the frame,
  transforms the frame and fits the model on the result; \<open>predict\<close> transforms with
  the fitted transformer and predicts with the fitted model.
\<close>

definition pipeline_fit ::
  "column_transformer \<Rightarrow> 'm estimator \<Rightarrow> 'i frame \<Rightarrow> 'i series \<Rightarrow> error + (fitted_transformer \<times> 'm)" where
  "pipeline_fit ct model X y =
     and_then (ct_fit ct X) (\<lambda>ft.
     and_then (ct_transform ft X) (\<lambda>M.
     and_then (fit model M (cells (col y))) (\<lambda>m.
     Inr (ft, m))))"

definition pipeline_predict ::
  "'m estimator \<Rightarrow> fitted_transformer \<times> 'm \<Rightarrow> 'i frame \<Rightarrow> error + real list" where
  "pipeline_predict model fitted X =
     and_then (ct_transform (fst fitted) X) (\<lambda>M. predict model (snd fitted) M)"

text \<open>
  \<^verbatim>\<open>mean_squared_error(y_true, y_pred)\<close>: the mean of the squared differences;
  \<open>ValueError\<close> on a missing target, on different lengths and on no samples.
\<close>

definition mean_squared_error :: "cell list \<Rightarrow> real list \<Rightarrow> error + real" where
  "mean_squared_error y_true y_pred =
     and_then (numeric_targets y_true) (\<lambda>ys.
       if length ys \<noteq> length y_pred
       then Inl (ValueError ''Found input variables with inconsistent numbers of samples'')
       else if ys = [] then Inl (ValueError ''Found array with 0 sample(s)'')
       else Inr (sum_list (map (\<lambda>(t, p). (t - p)\<^sup>2) (zip ys y_pred)) / real (length ys)))"

text \<open>Rounding to the nearest integer, a tie to the even neighbour.\<close>

definition round_half_even :: "real \<Rightarrow> int" where
  "round_half_even r =
     (let f = \<lfloor>r\<rfloor>
      in if r - of_int f < 1 / 2 then f
         else if 1 / 2 < r - of_int f then f + 1
         else if even f then f else f + 1)"

text \<open>
  \<open>compare_models\<close> of the model comparison: the value is the rounded RMSE it prints.
  The frames and series it reads as globals are arguments here.
\<close>

definition compare_models ::
  "'m estimator \<Rightarrow> 'i frame \<Rightarrow> 'i series \<Rightarrow> 'i frame \<Rightarrow> 'i series \<Rightarrow> error + int" where
  "compare_models model X_train y_train X_validation y_validation =
     and_then (pipeline_fit (preprocess X_train) model X_train y_train) (\<lambda>model_pipe.
     and_then (pipeline_predict model model_pipe X_validation) (\<lambda>y_pred.
     and_then (mean_squared_error (cells (col y_validation)) y_pred) (\<lambda>MSE.
     Inr (round_half_even (sqrt MSE)))))"

section \<open>Feature ablation\<close>

text \<open>
  \<^verbatim>\<open>xs.remove(x)\<close> raises \<open>ValueError\<close> when \<open>x\<close> is not in the list; under
  \<^verbatim>\<open>try: ... except: pass\<close> the list is then left as it is.
\<close>

definition list_remove :: "'a \<Rightarrow> 'a list \<Rightarrow> error + 'a list" where
  "list_remove x xs =
     (if x \<in> set xs then Inr (remove1 x xs) else Inl (ValueError ''list.remove(x): x not in list''))"

definition try_remove :: "'a \<Rightarrow> 'a list \<Rightarrow> 'a list" where
  "try_remove x xs = (case list_remove x xs of Inl e \<Rightarrow> xs | Inr ys \<Rightarrow> ys)"

definition check_feature_process :: "'i frame \<Rightarrow> string \<Rightarrow> column_transformer" where
  "check_feature_process X_train feature_to_drop =
     (let numeric_features =
            try_remove feature_to_drop [''Lufttemperatur'', ''Globalstraling'', ''Solskinstid''];
          categorical_features =
            try_remove feature_to_drop [''Hour'', ''isWeekday'', ''Month'']
      in \<lparr>categorical_features = categorical_features,
          numeric_features = numeric_features,
          unknown = Unknown_Ignore\<rparr>)"

definition check_feature_compare ::
  "column_transformer \<Rightarrow> 'm estimator \<Rightarrow> 'i frame \<Rightarrow> 'i series \<Rightarrow> 'i frame \<Rightarrow> 'i series
     \<Rightarrow> error + int" where
  "check_feature_compare check_feature_preprocess model X_train_check_feature y_train
       X_validation_check_feature y_validation =
     and_then (pipeline_fit check_feature_preprocess model X_train_check_feature y_train)
       (\<lambda>check_feature_pipe.
     and_then (pipeline_predict model check_feature_pipe X_validation_check_feature) (\<lambda>y_pred.
     and_then (mean_squared_error (cells (col y_validation)) y_pred) (\<lambda>MSE.
     Inr (round_half_even (sqrt MSE)))))"

text \<open>
  One turn of the loop over \<open>features_to_test\<close>: the feature is dropped from both
  frames, the preprocessor is rebuilt, and every model is evaluated.
\<close>

definition ablation_step ::
  "'m estimator list \<Rightarrow> 'i frame \<Rightarrow> 'i series \<Rightarrow> 'i frame \<Rightarrow> 'i series \<Rightarrow> string
     \<Rightarrow> error + int list" where
  "ablation_step best_models X_train y_train X_validation y_validation n_feature =
     and_then (drop_columns [n_feature] X_train) (\<lambda>X_train_check_feature.
     and_then (drop_columns [n_feature] X_validation) (\<lambda>X_validation_check_feature.
     sequence (map (\<lambda>model.
         check_feature_compare (check_feature_process X_train_check_feature n_feature) model
           X_train_check_feature y_train X_validation_check_feature y_validation)
       best_models)))"

definition ablation ::
  "string list \<Rightarrow> 'm estimator list \<Rightarrow> 'i frame \<Rightarrow> 'i series \<Rightarrow> 'i frame \<Rightarrow> 'i series
     \<Rightarrow> error + int list list" where
  "ablation features_to_test best_models X_train y_train X_validation y_validation =
     sequence (map (ablation_step best_models X_train y_train X_validation y_validation)
                   features_to_test)"

section \<open>The final model and its predictions\<close>

definition preprocess_selected_features :: "'i frame \<Rightarrow> column_transformer" where
  "preprocess_selected_features X_train =
     \<lparr>categorical_features = [''Hour'', ''isWeekday'', ''Month''],
      numeric_features = [''Lufttemperatur''],
      unknown = Unknown_Ignore\<rparr>"

text \<open>
  \<open>best_model\<close>: the pipeline of the selected preprocessor and the chosen model, fitted
  on the training features without \<open>Globalstraling\<close> and \<open>Solskinstid\<close>.
\<close>

definition best_model ::
  "'m estimator \<Rightarrow> 'i frame \<Rightarrow> 'i series \<Rightarrow> error + (fitted_transformer \<times> 'm)" where
  "best_model KNR X_train y_train =
     and_then (drop_columns [''Globalstraling'', ''Solskinstid''] X_train)
       (\<lambda>X_train_selected_features.
     pipeline_fit (preprocess_selected_features X_train_selected_features) KNR
       X_train_selected_features y_train)"

text \<open>The rounded RMSE of the fitted pipeline on the test set.\<close>

definition test_rmse ::
  "'m estimator \<Rightarrow> fitted_transformer \<times> 'm \<Rightarrow> 'i frame \<Rightarrow> 'i series \<Rightarrow> error + int" where
  "test_rmse KNR fitted X_test y_test =
     and_then (drop_columns [''Globalstraling'', ''Solskinstid''] X_test)
       (\<lambda>X_test_selected_features.
     and_then (pipeline_predict KNR fitted X_test_selected_features) (\<lambda>y_pred.
     and_then (mean_squared_error (cells (col y_test)) y_pred) (\<lambda>MSE.
     Inr (round_half_even (sqrt MSE)))))"

text \<open>
  \<^verbatim>\<open>df.Volum = values\<close>: the cells of the column are replaced (\<open>ValueError\<close> when the
  number of values is not the number of rows); with no such column pandas sets a plain
  attribute and the frame's columns stay as they are.
\<close>

definition set_attr :: "string \<Rightarrow> cell list \<Rightarrow> 'i frame \<Rightarrow> error + 'i frame" where
  "set_attr n vals df =
     (if lookup_col n (columns df) = None then Inr df
      else if length vals \<noteq> length (index df)
      then Inl (ValueError ''Length of values does not match length of index'')
      else Inr (df\<lparr>columns :=
                     map (\<lambda>c. if cname c = n then c\<lparr>dtype := Float64, cells := vals\<rparr> else c)
                         (columns df)\<rparr>))"

text \<open>\<^verbatim>\<open>Series.round()\<close> on the cells of a column.\<close>

definition round_cell :: "cell \<Rightarrow> cell" where
  "round_cell c = (case c of Num r \<Rightarrow> Num (of_int (round_half_even r)) | _ \<Rightarrow> c)"

text \<open>
  The predictions for the future dataset: the frame that is written to
  \<^verbatim>\<open>predictions.csv\<close>. The notebook gets here after \<open>splitSet\<close> has read the
  \<open>Volum\<close> column of that frame, so the column that is read back is there.
\<close>

definition predictions ::
  "'m estimator \<Rightarrow> fitted_transformer \<times> 'm \<Rightarrow> 'i frame \<Rightarrow> 'i frame \<Rightarrow> error + 'i frame" where
  "predictions KNR fitted X_toPredict toPredict_2022 =
     and_then (pipeline_predict KNR fitted X_toPredict) (\<lambda>volum_prediction.
     and_then (set_attr ''Volum'' (map Num volum_prediction) toPredict_2022) (\<lambda>d1.
     and_then (get_attr ''Volum'' d1) (\<lambda>v.
     set_attr ''Volum'' (map round_cell (cells (col v))) d1)))"

text \<open>
  The notebook from the split to the written predictions: the rounded test RMSE and
  the output frame.
\<close>

definition final_run ::
  "'m estimator \<Rightarrow> 'i frame \<Rightarrow> 'i frame \<Rightarrow> 'i frame \<Rightarrow> error + (int \<times> 'i frame)" where
  "final_run KNR training_set test_set toPredict_2022 =
     and_then (splitSet training_set) (\<lambda>(X_train, y_train).
     and_then (splitSet test_set) (\<lambda>(X_test, y_test).
     and_then (splitSet toPredict_2022) (\<lambda>(X_toPredict, y_toPredict).
     and_then (best_model KNR X_train y_train) (\<lambda>fitted.
     and_then (test_rmse KNR fitted X_test y_test) (\<lambda>RMSE.
     and_then (predictions KNR fitted X_toPredict toPredict_2022) (\<lambda>out.
     Inr (RMSE, out)))))))"

text \<open>
  The reduced feature set of a frame of features: the frame without the columns
  \<open>Globalstraling\<close> and \<open>Solskinstid\<close>.
\<close>

definition reduced_feature_set :: "'i frame \<Rightarrow> 'i frame" where
  "reduced_feature_set X =
     X\<lparr>columns := filter (\<lambda>c. cname c \<notin> set [''Globalstraling'', ''Solskinstid'']) (columns X)\<rparr>"

section \<open>Example data\<close>

text \<open>
  A parser for the labels of the example frames, standing in for \<^verbatim>\<open>pd.to_datetime\<close>
  (1 January 2022 is day 18993 after 1 January 1970), and small frames with the
  notebook's columns.
\<close>

definition example_parse :: "cell \<Rightarrow> stamp option" where
  "example_parse c =
     (case c of
        Str s \<Rightarrow>
          map_of
            [(''2022-01-01 05:00:00'', \<lparr>date = 18993, hour = 5, minute = 0, second = 0\<rparr>),
             (''2022-01-01 06:00:00'', \<lparr>date = 18993, hour = 6, minute = 0, second = 0\<rparr>),
             (''2022-01-02 05:00:00'', \<lparr>date = 18994, hour = 5, minute = 0, second = 0\<rparr>),
             (''2022-01-02 05:30:00'', \<lparr>date = 18994, hour = 5, minute = 30, second = 0\<rparr>),
             (''2022-01-02 06:00:00'', \<lparr>date = 18994, hour = 6, minute = 0, second = 0\<rparr>)] s
      | _ \<Rightarrow> None)"



text \<open>The filled table with plain timestamps as its labels, for the split.\<close>

definition example_imputed :: "stamp frame" where
  "example_imputed =
     \<lparr>index =
        [\<lparr>date = 18993, hour = 5, minute = 0, second = 0\<rparr>,
         \<lparr>date = 18993, hour = 6, minute = 0, second = 0\<rparr>,
         \<lparr>date = 18994, hour = 5, minute = 0, second = 0\<rparr>,
         \<lparr>date = 18994, hour = 6, minute = 0, second = 0\<rparr>],
      columns =
        [\<lparr>cname = ''Hour'', dtype = Object, cells = [Num 5, Num 6, Num 5, Num 6]\<rparr>,
         \<lparr>cname = ''isWeekday'', dtype = Object, cells = [Num 0, Num 0, Num 0, Num 0]\<rparr>,
         \<lparr>cname = ''Month'', dtype = Object, cells = [Num 1, Num 1, Num 1, Num 1]\<rparr>,
         \<lparr>cname = ''Globalstraling'', dtype = Float64, cells = [Num 0, Num 10, Num 0, Num 12]\<rparr>,
         \<lparr>cname = ''Solskinstid'', dtype = Float64, cells = [NaN, Num 0, Num 1, Num 0]\<rparr>,
         \<lparr>cname = ''Lufttemperatur'', dtype = Float64, cells = [Num 2, Num 3, Num 2, Num 3]\<rparr>,
         \<lparr>cname = ''Volum'', dtype = Float64, cells = [Num 10, Num 20, Num 14, Num 20]\<rparr>]\<rparr>"

text \<open>
  Two rows of the same hour, the later day first: the gap is in the row of 2 January.
\<close>

definition unsorted_raw :: "nat frame" where
  "unsorted_raw =
     \<lparr>index = [0, 1],
      columns =
        [\<lparr>cname = ''Dato + Tid'', dtype = Object,
          cells = [Str ''2022-01-02 05:00:00'', Str ''2022-01-01 05:00:00'']\<rparr>,
         \<lparr>cname = ''Hour'', dtype = Int64, cells = [Num 5, Num 5]\<rparr>,
         \<lparr>cname = ''isWeekday'', dtype = Int64, cells = [Num 0, Num 0]\<rparr>,
         \<lparr>cname = ''Month'', dtype = Int64, cells = [Num 1, Num 1]\<rparr>,
         \<lparr>cname = ''Lufttemperatur'', dtype = Float64, cells = [NaN, Num 7]\<rparr>]\<rparr>"

text \<open>Rows in date order, two of them in hour 5 of the second day.\<close>

definition halfhour_raw :: "nat frame" where
  "halfhour_raw =
     \<lparr>index = [0, 1, 2],
      columns =
        [\<lparr>cname = ''Dato + Tid'', dtype = Object,
          cells = [Str ''2022-01-01 05:00:00'', Str ''2022-01-02 05:00:00'',
                   Str ''2022-01-02 05:30:00'']\<rparr>,
         \<lparr>cname = ''Hour'', dtype = Int64, cells = [Num 5, Num 5, Num 5]\<rparr>,
         \<lparr>cname = ''isWeekday'', dtype = Int64, cells = [Num 0, Num 0, Num 0]\<rparr>,
         \<lparr>cname = ''Month'', dtype = Int64, cells = [Num 1, Num 1, Num 1]\<rparr>,
         \<lparr>cname = ''Lufttemperatur'', dtype = Float64, cells = [Num 7, Num 9, NaN]\<rparr>]\<rparr>"

text \<open>
  Two rows of the same hour, the later day first: the gap is in the row of 1 January,
  the earliest day of that hour.
\<close>

definition later_first_raw :: "nat frame" where
  "later_first_raw =
     \<lparr>index = [0, 1],
      columns =
        [\<lparr>cname = ''Dato + Tid'', dtype = Object,
          cells = [Str ''2022-01-02 05:00:00'', Str ''2022-01-01 05:00:00'']\<rparr>,
         \<lparr>cname = ''Hour'', dtype = Int64, cells = [Num 5, Num 5]\<rparr>,
         \<lparr>cname = ''isWeekday'', dtype = Int64, cells = [Num 0, Num 0]\<rparr>,
         \<lparr>cname = ''Month'', dtype = Int64, cells = [Num 1, Num 1]\<rparr>,
         \<lparr>cname = ''Lufttemperatur'', dtype = Float64, cells = [Num 7, NaN]\<rparr>]\<rparr>"



text \<open>
  Imputed datasets for the model steps: a training set of two days, and a validation,
  a test and a future set of one day each, of a month and a kind of day the training
  set does not have. The features, the target and the selected features of each.
\<close>

definition example_train :: "stamp frame" where
  "example_train =
     \<lparr>index = [\<lparr>date = 18993, hour = 5, minute = 0, second = 0\<rparr>,
               \<lparr>date = 18993, hour = 6, minute = 0, second = 0\<rparr>,
               \<lparr>date = 18994, hour = 5, minute = 0, second = 0\<rparr>,
               \<lparr>date = 18994, hour = 6, minute = 0, second = 0\<rparr>],
      columns =
        [\<lparr>cname = ''Hour'', dtype = Object, cells = [Num 5, Num 6, Num 5, Num 6]\<rparr>,
         \<lparr>cname = ''isWeekday'', dtype = Object, cells = [Num 0, Num 0, Num 0, Num 0]\<rparr>,
         \<lparr>cname = ''Month'', dtype = Object, cells = [Num 1, Num 1, Num 1, Num 1]\<rparr>,
         \<lparr>cname = ''Globalstraling'', dtype = Float64, cells = [Num 0, Num 2, Num 0, Num 2]\<rparr>,
         \<lparr>cname = ''Solskinstid'', dtype = Float64, cells = [Num 1, Num 1, Num 1, Num 1]\<rparr>,
         \<lparr>cname = ''Lufttemperatur'', dtype = Float64, cells = [Num 2, Num 4, Num 2, Num 4]\<rparr>,
         \<lparr>cname = ''Volum'', dtype = Float64, cells = [Num 10, Num 20, Num 10, Num 21]\<rparr>]\<rparr>"

definition example_X_train :: "stamp frame" where
  "example_X_train =
     \<lparr>index = [\<lparr>date = 18993, hour = 5, minute = 0, second = 0\<rparr>,
               \<lparr>date = 18993, hour = 6, minute = 0, second = 0\<rparr>,
               \<lparr>date = 18994, hour = 5, minute = 0, second = 0\<rparr>,
               \<lparr>date = 18994, hour = 6, minute = 0, second = 0\<rparr>],
      columns =
        [\<lparr>cname = ''Hour'', dtype = Object, cells = [Num 5, Num 6, Num 5, Num 6]\<rparr>,
         \<lparr>cname = ''isWeekday'', dtype = Object, cells = [Num 0, Num 0, Num 0, Num 0]\<rparr>,
         \<lparr>cname = ''Month'', dtype = Object, cells = [Num 1, Num 1, Num 1, Num 1]\<rparr>,
         \<lparr>cname = ''Globalstraling'', dtype = Float64, cells = [Num 0, Num 2, Num 0, Num 2]\<rparr>,
         \<lparr>cname = ''Solskinstid'', dtype = Float64, cells = [Num 1, Num 1, Num 1, Num 1]\<rparr>,
         \<lparr>cname = ''Lufttemperatur'', dtype = Float64, cells = [Num 2, Num 4, Num 2, Num 4]\<rparr>]\<rparr>"

definition example_y_train :: "stamp series" where
  "example_y_train =
     \<lparr>labels = [\<lparr>date = 18993, hour = 5, minute = 0, second = 0\<rparr>,
                \<lparr>date = 18993, hour = 6, minute = 0, second = 0\<rparr>,
                \<lparr>date = 18994, hour = 5, minute = 0, second = 0\<rparr>,
                \<lparr>date = 18994, hour = 6, minute = 0, second = 0\<rparr>],
      col = \<lparr>cname = ''Volum'', dtype = Float64, cells = [Num 10, Num 20, Num 10, Num 21]\<rparr>\<rparr>"

definition example_validation :: "stamp frame" where
  "example_validation =
     \<lparr>index = [\<lparr>date = 19024, hour = 5, minute = 0, second = 0\<rparr>,
               \<lparr>date = 19024, hour = 6, minute = 0, second = 0\<rparr>],
      columns =
        [\<lparr>cname = ''Hour'', dtype = Object, cells = [Num 5, Num 6]\<rparr>,
         \<lparr>cname = ''isWeekday'', dtype = Object, cells = [Num 1, Num 1]\<rparr>,
         \<lparr>cname = ''Month'', dtype = Object, cells = [Num 2, Num 2]\<rparr>,
         \<lparr>cname = ''Globalstraling'', dtype = Float64, cells = [Num 0, Num 2]\<rparr>,
         \<lparr>cname = ''Solskinstid'', dtype = Float64, cells = [Num 1, Num 1]\<rparr>,
         \<lparr>cname = ''Lufttemperatur'', dtype = Float64, cells = [Num 2, Num 4]\<rparr>,
         \<lparr>cname = ''Volum'', dtype = Float64, cells = [Num (61 / 4), Num (61 / 4)]\<rparr>]\<rparr>"

definition example_X_validation :: "stamp frame" where
  "example_X_validation =
     \<lparr>index = [\<lparr>date = 19024, hour = 5, minute = 0, second = 0\<rparr>,
               \<lparr>date = 19024, hour = 6, minute = 0, second = 0\<rparr>],
      columns =
        [\<lparr>cname = ''Hour'', dtype = Object, cells = [Num 5, Num 6]\<rparr>,
         \<lparr>cname = ''isWeekday'', dtype = Object, cells = [Num 1, Num 1]\<rparr>,
         \<lparr>cname = ''Month'', dtype = Object, cells = [Num 2, Num 2]\<rparr>,
         \<lparr>cname = ''Globalstraling'', dtype = Float64, cells = [Num 0, Num 2]\<rparr>,
         \<lparr>cname = ''Solskinstid'', dtype = Float64, cells = [Num 1, Num 1]\<rparr>,
         \<lparr>cname = ''Lufttemperatur'', dtype = Float64, cells = [Num 2, Num 4]\<rparr>]\<rparr>"

definition example_y_validation :: "stamp series" where
  "example_y_validation =
     \<lparr>labels = [\<lparr>date = 19024, hour = 5, minute = 0, second = 0\<rparr>,
                \<lparr>date = 19024, hour = 6, minute = 0, second = 0\<rparr>],
      col = \<lparr>cname = ''Volum'', dtype = Float64, cells = [Num (61 / 4), Num (61 / 4)]\<rparr>\<rparr>"

text \<open>Validation targets that are five halves above the mean of the training targets.\<close>

definition example_y_validation_off :: "stamp series" where
  "example_y_validation_off =
     \<lparr>labels = [\<lparr>date = 19024, hour = 5, minute = 0, second = 0\<rparr>,
                \<lparr>date = 19024, hour = 6, minute = 0, second = 0\<rparr>],
      col = \<lparr>cname = ''Volum'', dtype = Float64, cells = [Num (71 / 4), Num (71 / 4)]\<rparr>\<rparr>"

definition example_test :: "stamp frame" where
  "example_test =
     \<lparr>index = [\<lparr>date = 19025, hour = 5, minute = 0, second = 0\<rparr>,
               \<lparr>date = 19025, hour = 6, minute = 0, second = 0\<rparr>],
      columns =
        [\<lparr>cname = ''Hour'', dtype = Object, cells = [Num 5, Num 6]\<rparr>,
         \<lparr>cname = ''isWeekday'', dtype = Object, cells = [Num 1, Num 1]\<rparr>,
         \<lparr>cname = ''Month'', dtype = Object, cells = [Num 2, Num 2]\<rparr>,
         \<lparr>cname = ''Globalstraling'', dtype = Float64, cells = [Num 0, Num 2]\<rparr>,
         \<lparr>cname = ''Solskinstid'', dtype = Float64, cells = [Num 1, Num 1]\<rparr>,
         \<lparr>cname = ''Lufttemperatur'', dtype = Float64, cells = [Num 2, Num 4]\<rparr>,
         \<lparr>cname = ''Volum'', dtype = Float64, cells = [Num (57 / 4), Num (65 / 4)]\<rparr>]\<rparr>"

definition example_X_test :: "stamp frame" where
  "example_X_test =
     \<lparr>index = [\<lparr>date = 19025, hour = 5, minute = 0, second = 0\<rparr>,
               \<lparr>date = 19025, hour = 6, minute = 0, second = 0\<rparr>],
      columns =
        [\<lparr>cname = ''Hour'', dtype = Object, cells = [Num 5, Num 6]\<rparr>,
         \<lparr>cname = ''isWeekday'', dtype = Object, cells = [Num 1, Num 1]\<rparr>,
         \<lparr>cname = ''Month'', dtype = Object, cells = [Num 2, Num 2]\<rparr>,
         \<lparr>cname = ''Globalstraling'', dtype = Float64, cells = [Num 0, Num 2]\<rparr>,
         \<lparr>cname = ''Solskinstid'', dtype = Float64, cells = [Num 1, Num 1]\<rparr>,
         \<lparr>cname = ''Lufttemperatur'', dtype = Float64, cells = [Num 2, Num 4]\<rparr>]\<rparr>"

definition example_y_test :: "stamp series" where
  "example_y_test =
     \<lparr>labels = [\<lparr>date = 19025, hour = 5, minute = 0, second = 0\<rparr>,
                \<lparr>date = 19025, hour = 6, minute = 0, second = 0\<rparr>],
      col = \<lparr>cname = ''Volum'', dtype = Float64, cells = [Num (57 / 4), Num (65 / 4)]\<rparr>\<rparr>"

definition example_future :: "stamp frame" where
  "example_future =
     \<lparr>index = [\<lparr>date = 19026, hour = 5, minute = 0, second = 0\<rparr>,
               \<lparr>date = 19026, hour = 6, minute = 0, second = 0\<rparr>],
      columns =
        [\<lparr>cname = ''Hour'', dtype = Object, cells = [Num 5, Num 6]\<rparr>,
         \<lparr>cname = ''isWeekday'', dtype = Object, cells = [Num 1, Num 1]\<rparr>,
         \<lparr>cname = ''Month'', dtype = Object, cells = [Num 2, Num 2]\<rparr>,
         \<lparr>cname = ''Globalstraling'', dtype = Float64, cells = [Num 0, Num 2]\<rparr>,
         \<lparr>cname = ''Solskinstid'', dtype = Float64, cells = [Num 1, Num 1]\<rparr>,
         \<lparr>cname = ''Lufttemperatur'', dtype = Float64, cells = [Num 2, Num 4]\<rparr>,
         \<lparr>cname = ''Volum'', dtype = Float64, cells = [NaN, NaN]\<rparr>]\<rparr>"

definition example_X_future :: "stamp frame" where
  "example_X_future =
     \<lparr>index = [\<lparr>date = 19026, hour = 5, minute = 0, second = 0\<rparr>,
               \<lparr>date = 19026, hour = 6, minute = 0, second = 0\<rparr>],
      columns =
        [\<lparr>cname = ''Hour'', dtype = Object, cells = [Num 5, Num 6]\<rparr>,
         \<lparr>cname = ''isWeekday'', dtype = Object, cells = [Num 1, Num 1]\<rparr>,
         \<lparr>cname = ''Month'', dtype = Object, cells = [Num 2, Num 2]\<rparr>,
         \<lparr>cname = ''Globalstraling'', dtype = Float64, cells = [Num 0, Num 2]\<rparr>,
         \<lparr>cname = ''Solskinstid'', dtype = Float64, cells = [Num 1, Num 1]\<rparr>,
         \<lparr>cname = ''Lufttemperatur'', dtype = Float64, cells = [Num 2, Num 4]\<rparr>]\<rparr>"

definition example_y_future :: "stamp series" where
  "example_y_future =
     \<lparr>labels = [\<lparr>date = 19026, hour = 5, minute = 0, second = 0\<rparr>,
                \<lparr>date = 19026, hour = 6, minute = 0, second = 0\<rparr>],
      col = \<lparr>cname = ''Volum'', dtype = Float64, cells = [NaN, NaN]\<rparr>\<rparr>"

text \<open>The preprocessor fitted on the training features.\<close>

definition example_fitted :: fitted_transformer where
  "example_fitted =
     \<lparr>features =
        \<lparr>categorical_features = [''Hour'', ''isWeekday'', ''Month''],
         numeric_features = [''Globalstraling'', ''Solskinstid'', ''Lufttemperatur''],
         unknown = Unknown_Ignore\<rparr>,
      categories = [[Num 5, Num 6], [Num 0], [Num 1]],
      scaling = [Some (1, 1), Some (1, 1), Some (3, 1)]\<rparr>"

text \<open>The selected preprocessor fitted on the reduced training features.\<close>

definition example_selected_fitted :: fitted_transformer where
  "example_selected_fitted =
     \<lparr>features =
        \<lparr>categorical_features = [''Hour'', ''isWeekday'', ''Month''],
         numeric_features = [''Lufttemperatur''],
         unknown = Unknown_Ignore\<rparr>,
      categories = [[Num 5, Num 6], [Num 0], [Num 1]],
      scaling = [Some (3, 1)]\<rparr>"




text \<open>The written predictions for the future set, with the mean regressor as the model.\<close>

definition example_predictions :: "stamp frame" where
  "example_predictions =
     \<lparr>index = [\<lparr>date = 19026, hour = 5, minute = 0, second = 0\<rparr>,
               \<lparr>date = 19026, hour = 6, minute = 0, second = 0\<rparr>],
      columns =
        [\<lparr>cname = ''Hour'', dtype = Object, cells = [Num 5, Num 6]\<rparr>,
         \<lparr>cname = ''isWeekday'', dtype = Object, cells = [Num 1, Num 1]\<rparr>,
         \<lparr>cname = ''Month'', dtype = Object, cells = [Num 2, Num 2]\<rparr>,
         \<lparr>cname = ''Globalstraling'', dtype = Float64, cells = [Num 0, Num 2]\<rparr>,
         \<lparr>cname = ''Solskinstid'', dtype = Float64, cells = [Num 1, Num 1]\<rparr>,
         \<lparr>cname = ''Lufttemperatur'', dtype = Float64, cells = [Num 2, Num 4]\<rparr>,
         \<lparr>cname = ''Volum'', dtype = Float64, cells = [Num 15, Num 15]\<rparr>]\<rparr>"

section \<open>Error propagation\<close>

lemma and_then_Inr [simp]: "and_then (Inr x) f = f x"
  by (simp add: and_then_def)

lemma and_then_Inl [simp]: "and_then (Inl e) f = Inl e"
  by (simp add: and_then_def)

lemma and_then_eq_Inr:
  "and_then r f = Inr y \<longleftrightarrow> (\<exists>x. r = Inr x \<and> f x = Inr y)"
  by (cases r) simp_all

lemma sequence_Inrs: "sequence (map Inr xs) = Inr xs"
  by (induction xs) simp_all

lemma sequence_Inr_iff: "sequence rs = Inr xs \<longleftrightarrow> rs = map Inr xs"
proof
  show "sequence rs = Inr xs \<Longrightarrow> rs = map Inr xs"
  proof (induction rs arbitrary: xs)
    case Nil
    then show ?case by simp
  next
    case (Cons r rs)
    then show ?case by (cases r; cases "sequence rs") auto
  qed
qed (simp add: sequence_Inrs)

lemma sequence_map_Inr: "(\<And>x. x \<in> set xs \<Longrightarrow> g x = Inr (f x)) \<Longrightarrow> sequence (map g xs) = Inr (map f xs)"
  by (simp add: sequence_Inr_iff)

section \<open>Forward fill inside groups\<close>














section \<open>What \<open>handleNullValues\<close> returns\<close>



lemma find_filter_same:
  "(\<And>x. P x \<Longrightarrow> Q x) \<Longrightarrow> find P (filter Q xs) = find P xs"
  by (induction xs) auto





section \<open>Claims about the missing-value imputer\<close>






text \<open>
  C1. The claim: a gap at hour H of day D, with a present value at hour H of day D-1,
  is filled with the value of day D-1; the comment on the line of the fill says the
  same (\<^verbatim>\<open># Fill NaN with value same hour the day before\<close>). The rows are never put in
  the order of their dates, and the fill takes the row before in the table. In the
  first table the row of 2 January, 05:00 (a gap) comes before the row of 1 January,
  05:00 (the value 7): the gap stays, where the value of the day before is 7. In the
  second table the rows are in the order of their dates and 2 January has two rows in
  hour 5: the gap at 05:30 takes the value of 05:00 of the same day (9), where the
  value of the day before is 7.
\<close>

theorem handleNullValues_not_the_day_before:
  "handleNullValues example_parse unsorted_raw
     = Inr \<lparr>index =
              [Some \<lparr>date = 18994, hour = 5, minute = 0, second = 0\<rparr>,
               Some \<lparr>date = 18993, hour = 5, minute = 0, second = 0\<rparr>],
            columns =
              [\<lparr>cname = ''Hour'', dtype = Object, cells = [Num 5, Num 5]\<rparr>,
               \<lparr>cname = ''isWeekday'', dtype = Object, cells = [Num 0, Num 0]\<rparr>,
               \<lparr>cname = ''Month'', dtype = Object, cells = [Num 1, Num 1]\<rparr>,
               \<lparr>cname = ''Lufttemperatur'', dtype = Float64, cells = [NaN, Num 7]\<rparr>]\<rparr> \<and>
   handleNullValues example_parse halfhour_raw
     = Inr \<lparr>index =
              [Some \<lparr>date = 18993, hour = 5, minute = 0, second = 0\<rparr>,
               Some \<lparr>date = 18994, hour = 5, minute = 0, second = 0\<rparr>,
               Some \<lparr>date = 18994, hour = 5, minute = 30, second = 0\<rparr>],
            columns =
              [\<lparr>cname = ''Hour'', dtype = Object, cells = [Num 5, Num 5, Num 5]\<rparr>,
               \<lparr>cname = ''isWeekday'', dtype = Object, cells = [Num 0, Num 0, Num 0]\<rparr>,
               \<lparr>cname = ''Month'', dtype = Object, cells = [Num 1, Num 1, Num 1]\<rparr>,
               \<lparr>cname = ''Lufttemperatur'', dtype = Float64,
                 cells = [Num 7, Num 9, Num 9]\<rparr>]\<rparr>"
  by code_simp

text \<open>
  C4. The claim: when the earliest row of an hour of day is missing it stays missing,
  and nothing is filled backward. The fill takes the rows in the order of the table,
  not of their dates. In this table the row of 2 January, 05:00 (the value 7) comes
  before the row of 1 January, 05:00 (a gap): the gap of 1 January, the earliest day
  of hour 5, is filled with the value of 2 January.
\<close>

theorem handleNullValues_fills_from_later_day:
  "handleNullValues example_parse later_first_raw
     = Inr \<lparr>index =
              [Some \<lparr>date = 18994, hour = 5, minute = 0, second = 0\<rparr>,
               Some \<lparr>date = 18993, hour = 5, minute = 0, second = 0\<rparr>],
            columns =
              [\<lparr>cname = ''Hour'', dtype = Object, cells = [Num 5, Num 5]\<rparr>,
               \<lparr>cname = ''isWeekday'', dtype = Object, cells = [Num 0, Num 0]\<rparr>,
               \<lparr>cname = ''Month'', dtype = Object, cells = [Num 1, Num 1]\<rparr>,
               \<lparr>cname = ''Lufttemperatur'', dtype = Float64, cells = [Num 7, Num 7]\<rparr>]\<rparr>"
  by code_simp

section \<open>Claims about the split\<close>

lemma reinsert_found:
  "find (\<lambda>c. cname c = n) cs = Some v \<Longrightarrow> distinct (map cname cs) \<Longrightarrow>
   take (length (takeWhile (\<lambda>c. cname c \<noteq> n) cs)) (filter (\<lambda>c. cname c \<noteq> n) cs)
     @ v # drop (length (takeWhile (\<lambda>c. cname c \<noteq> n) cs)) (filter (\<lambda>c. cname c \<noteq> n) cs)
   = cs"
proof (induction cs)
  case Nil
  then show ?case by simp
next
  case (Cons a cs)
  show ?case
  proof (cases "cname a = n")
    case True
    with Cons.prems have "n \<notin> set (map cname cs)"
      by simp
    then have "\<forall>c \<in> set cs. cname c \<noteq> n"
      by (auto simp: image_iff)
    then have "filter (\<lambda>c. cname c \<noteq> n) cs = cs"
      by (simp add: filter_id_conv)
    with True Cons.prems show ?thesis by simp
  next
    case False
    with Cons show ?thesis by simp
  qed
qed

lemma find_append_last:
  "\<forall>c \<in> set xs. \<not> P c \<Longrightarrow> P v \<Longrightarrow> find P (xs @ [v]) = Some v"
  by (induction xs) auto

lemma find_append_none:
  "\<not> P v \<Longrightarrow> find P (xs @ [v]) = find P xs"
  by (induction xs) auto

text \<open>
  C10. For a dataset with a \<open>Volum\<close> column, \<open>splitSet\<close> returns the frame \<open>X\<close> with
  the same rows and all columns but \<open>Volum\<close>, in their order, and the series \<open>y\<close> of
  the \<open>Volum\<close> column. \<open>X\<close> is a new frame (\<^verbatim>\<open>drop\<close> copies), so the dataset is as
  it was. Joining \<open>y\<close> to \<open>X\<close> gives back every column of the dataset under its name,
  and inserting \<open>y\<close> at the position \<open>Volum\<close> had gives back the dataset itself.
\<close>

theorem splitSet_recombines:
  assumes "lookup_col ''Volum'' (columns df) = Some v"
  shows "\<exists>X y. splitSet df = Inr (X, y) \<and>
           index X = index df \<and>
           columns X = filter (\<lambda>c. cname c \<noteq> ''Volum'') (columns df) \<and>
           labels y = index df \<and> col y = v \<and>
           index (join_column X y) = index df \<and>
           (\<forall>n. lookup_col n (columns (join_column X y)) = lookup_col n (columns df)) \<and>
           (distinct (map cname (columns df)) \<longrightarrow>
              insert_column (length (takeWhile (\<lambda>c. cname c \<noteq> ''Volum'') (columns df))) y X
                = df)"
proof -
  let ?X = "df\<lparr>columns := filter (\<lambda>c. cname c \<noteq> ''Volum'') (columns df)\<rparr>"
  let ?y = "\<lparr>labels = index df, col = v\<rparr>"
  have v: "find (\<lambda>c. cname c = ''Volum'') (columns df) = Some v"
    using assms by (simp add: lookup_col_def)
  then have vin: "v \<in> set (columns df)" and vn: "cname v = ''Volum''"
    by (auto simp: find_Some_iff)
  then have "filter (\<lambda>n. n \<notin> set (map cname (columns df))) [''Volum''] = []"
    by force
  then have s: "splitSet df = Inr (?X, ?y)"
    using assms by (simp add: splitSet_def drop_columns_def get_attr_def)
  have look: "lookup_col n (columns (join_column ?X ?y)) = lookup_col n (columns df)" for n
  proof (cases "n = ''Volum''")
    case True
    have "find (\<lambda>c. cname c = ''Volum'') (filter (\<lambda>c. cname c \<noteq> ''Volum'') (columns df) @ [v])
          = Some v"
      using vn by (intro find_append_last) simp_all
    with True assms show ?thesis
      by (simp add: lookup_col_def join_column_def)
  next
    case False
    have "find (\<lambda>c. cname c = n) (filter (\<lambda>c. cname c \<noteq> ''Volum'') (columns df))
          = find (\<lambda>c. cname c = n) (columns df)"
      using False by (intro find_filter_same) simp
    moreover have "find (\<lambda>c. cname c = n) (filter (\<lambda>c. cname c \<noteq> ''Volum'') (columns df) @ [v])
          = find (\<lambda>c. cname c = n) (filter (\<lambda>c. cname c \<noteq> ''Volum'') (columns df))"
      using False vn by (intro find_append_none) simp
    ultimately show ?thesis
      by (simp add: lookup_col_def join_column_def)
  qed
  have ins: "insert_column (length (takeWhile (\<lambda>c. cname c \<noteq> ''Volum'') (columns df))) ?y ?X = df"
    if "distinct (map cname (columns df))"
    using reinsert_found [OF v that] by (simp add: insert_column_def)
  show ?thesis
    using s look ins by (intro exI [of _ ?X] exI [of _ ?y]) (simp add: join_column_def)
qed

theorem splitSet_recombines_witness:
  "lookup_col ''Volum'' (columns example_imputed)
     = Some \<lparr>cname = ''Volum'', dtype = Float64, cells = [Num 10, Num 20, Num 14, Num 20]\<rparr> \<and>
   distinct (map cname (columns example_imputed)) \<and>
   (\<exists>X y. splitSet example_imputed = Inr (X, y) \<and>
      map cname (columns X)
        = [''Hour'', ''isWeekday'', ''Month'', ''Globalstraling'', ''Solskinstid'', ''Lufttemperatur''] \<and>
      cells (col y) = [Num 10, Num 20, Num 14, Num 20] \<and>
      insert_column 6 y X = example_imputed)"
proof -
  let ?v = "\<lparr>cname = ''Volum'', dtype = Float64, cells = [Num 10, Num 20, Num 14, Num 20]\<rparr>"
  have v: "lookup_col ''Volum'' (columns example_imputed) = Some ?v"
    by code_simp
  have d: "distinct (map cname (columns example_imputed))"
    by code_simp
  have k: "length (takeWhile (\<lambda>c. cname c \<noteq> ''Volum'') (columns example_imputed)) = 6"
    by code_simp
  have f: "map cname (filter (\<lambda>c. cname c \<noteq> ''Volum'') (columns example_imputed))
        = [''Hour'', ''isWeekday'', ''Month'', ''Globalstraling'', ''Solskinstid'', ''Lufttemperatur'']"
    by code_simp
  from splitSet_recombines [OF v] d obtain X y where
    "splitSet example_imputed = Inr (X, y)"
    "columns X = filter (\<lambda>c. cname c \<noteq> ''Volum'') (columns example_imputed)"
    "col y = ?v"
    "insert_column (length (takeWhile (\<lambda>c. cname c \<noteq> ''Volum'') (columns example_imputed))) y X
       = example_imputed"
    by blast
  then have "splitSet example_imputed = Inr (X, y) \<and>
      map cname (columns X)
        = [''Hour'', ''isWeekday'', ''Month'', ''Globalstraling'', ''Solskinstid'', ''Lufttemperatur''] \<and>
      cells (col y) = [Num 10, Num 20, Num 14, Num 20] \<and>
      insert_column 6 y X = example_imputed"
    using k f by simp
  then have "\<exists>X y. splitSet example_imputed = Inr (X, y) \<and>
      map cname (columns X)
        = [''Hour'', ''isWeekday'', ''Month'', ''Globalstraling'', ''Solskinstid'', ''Lufttemperatur''] \<and>
      cells (col y) = [Num 10, Num 20, Num 14, Num 20] \<and>
      insert_column 6 y X = example_imputed"
    by (intro exI [of _ X] exI [of _ y])
  with v d show ?thesis
    by (intro conjI)
qed

section \<open>Facts about the preprocessor\<close>

lemma select_columns_Inr:
  "select_columns missing ns X = Inr cols
     \<longleftrightarrow> map (\<lambda>n. lookup_col n (columns X)) ns = map Some cols"
proof -
  have "map (\<lambda>n. case lookup_col n (columns X) of None \<Rightarrow> Inl (missing n) | Some c \<Rightarrow> Inr c) ns
          = map Inr cols
        \<longleftrightarrow> map (\<lambda>n. lookup_col n (columns X)) ns = map Some cols"
  proof (induction ns arbitrary: cols)
    case Nil
    then show ?case by simp
  next
    case (Cons n ns)
    then show ?case by (cases cols) (auto split: option.splits)
  qed
  then show ?thesis
    by (simp add: select_columns_def sequence_Inr_iff)
qed

lemma ct_fit_Inr:
  assumes "ct_fit ct X = Inr ft"
  obtains cat_cols num_cols where
    "index X \<noteq> []" "features ft = ct"
    "map (\<lambda>n. lookup_col n (columns X)) (categorical_features ct) = map Some cat_cols"
    "map (\<lambda>n. lookup_col n (columns X)) (numeric_features ct) = map Some num_cols"
    "map (\<lambda>c. unique_sorted (cells c)) cat_cols = map Inr (categories ft)"
    "map (\<lambda>c. scaler_fit (cells c)) num_cols = map Inr (scaling ft)"
  using assms
  by (auto simp: ct_fit_def and_then_eq_Inr sequence_Inr_iff select_columns_Inr
      split: if_splits)

lemma ct_fit_Inr_iff:
  "ct_fit ct X = Inr ft \<longleftrightarrow>
     index X \<noteq> [] \<and> features ft = ct \<and>
     (\<exists>cat_cols num_cols.
        map (\<lambda>n. lookup_col n (columns X)) (categorical_features ct) = map Some cat_cols \<and>
        map (\<lambda>n. lookup_col n (columns X)) (numeric_features ct) = map Some num_cols \<and>
        map (\<lambda>c. unique_sorted (cells c)) cat_cols = map Inr (categories ft) \<and>
        map (\<lambda>c. scaler_fit (cells c)) num_cols = map Inr (scaling ft))"
proof -
  have r: "ft = \<lparr>features = ct, categories = cats, scaling = stats\<rparr>
        \<longleftrightarrow> features ft = ct \<and> categories ft = cats \<and> scaling ft = stats" for cats stats
    by (cases ft) auto
  show ?thesis
    unfolding ct_fit_def
    by (auto simp: and_then_eq_Inr select_columns_Inr sequence_Inr_iff r)
qed

lemma unique_sorted_set:
  assumes "unique_sorted cs = Inr cats"
  shows "set cats = set cs"
proof -
  let ?nums = "concat (map (\<lambda>c. case c of Num r \<Rightarrow> [r] | _ \<Rightarrow> []) cs)"
  let ?strs = "concat (map (\<lambda>c. case c of Str s \<Rightarrow> [s] | _ \<Rightarrow> []) cs)"
  have n: "set ?nums = {r. Num r \<in> set cs}"
    by (auto split: cell.splits)
  have s: "set ?strs = {r. Str r \<in> set cs}"
    by (auto split: cell.splits)
  from assms have "cats = map Num (sort (remdups ?nums)) @ map Str (sort (remdups ?strs)) @
                   (if NaN \<in> set cs then [NaN] else [])"
    by (simp add: unique_sorted_def Let_def split: if_splits)
  then have "set cats = Num ` {r. Num r \<in> set cs} \<union> Str ` {r. Str r \<in> set cs}
                          \<union> (if NaN \<in> set cs then {NaN} else {})"
    using n s by simp
  also have "\<dots> = set cs"
  proof (intro set_eqI iffI)
    fix c assume c: "c \<in> set cs"
    show "c \<in> Num ` {r. Num r \<in> set cs} \<union> Str ` {r. Str r \<in> set cs}
                          \<union> (if NaN \<in> set cs then {NaN} else {})"
      by (cases c) (use c in auto)
  qed (auto split: if_splits)
  finally show ?thesis .
qed

lemma encode_cell_ignore:
  "encode_cell Unknown_Ignore cats v = Inr (map (\<lambda>c. Some (if c = v then 1 else 0)) cats)"
proof (cases "v \<in> set cats")
  case True
  then show ?thesis by (simp add: encode_cell_def)
next
  case False
  then have "map (\<lambda>c. Some (if c = v then 1 else 0 :: real)) cats = map (\<lambda>c. Some 0) cats"
    by (intro map_cong) auto
  with False show ?thesis by (simp add: encode_cell_def)
qed

lemma encode_cell_unseen:
  "v \<notin> set cats \<Longrightarrow> encode_cell Unknown_Ignore cats v = Inr (replicate (length cats) (Some 0))"
  by (simp add: encode_cell_def map_replicate_const)

lemma block_of_concat:
  "k < length bs \<Longrightarrow>
   take (length (bs ! k)) (drop (sum_list (map length (take k bs))) (concat bs @ rest)) = bs ! k"
proof (induction bs arbitrary: k)
  case Nil
  then show ?case by simp
next
  case (Cons b bs)
  then show ?case by (cases k) simp_all
qed

section \<open>Claims about the preprocessor\<close>

lemma lookup_cols_in_frame:
  assumes "map (\<lambda>n. lookup_col n (columns X)) ns = map Some cols"
  shows "length cols = length ns" and "set cols \<subseteq> set (columns X)"
proof -
  note m = assms
  from arg_cong [OF m, of length] show "length cols = length ns"
    by simp
  show "set cols \<subseteq> set (columns X)"
  proof
    fix c assume "c \<in> set cols"
    then have "Some c \<in> set (map (\<lambda>n. lookup_col n (columns X)) ns)"
      unfolding m by simp
    then obtain n where "lookup_col n (columns X) = Some c"
      by auto
    then show "c \<in> set (columns X)"
      by (auto simp: lookup_col_def find_Some_iff)
  qed
qed

text \<open>
  Under \<^verbatim>\<open>handle_unknown="ignore"\<close> the transform of a frame that has rows fails only
  on a missing column or on a string in a numeric column; otherwise it is this matrix.
\<close>

lemma ct_transform_ignore:
  assumes "unknown (features ft) = Unknown_Ignore" and "index X \<noteq> []"
    and "map (\<lambda>n. lookup_col n (columns X)) (categorical_features (features ft))
           = map Some cat_cols"
    and "map (\<lambda>n. lookup_col n (columns X)) (numeric_features (features ft))
           = map Some num_cols"
    and "\<forall>c \<in> set num_cols. \<forall>v \<in> set (cells c). \<forall>s. v \<noteq> Str s"
  shows "ct_transform ft X =
    Inr (map (\<lambda>i.
           concat (map (\<lambda>b. b ! i)
             (map (\<lambda>(cats, c). map (\<lambda>v. map (\<lambda>k. Some (if k = v then 1 else 0)) cats) (cells c))
                  (zip (categories ft) cat_cols)))
           @ map (\<lambda>s. s ! i)
             (map (\<lambda>(st, c). map (\<lambda>v. case v of
                                      Num r \<Rightarrow> (case st of None \<Rightarrow> None
                                                 | Some (m, s) \<Rightarrow> Some ((r - m) / s))
                                    | _ \<Rightarrow> None) (cells c))
                  (zip (scaling ft) num_cols)))
         [0..<length (index X)])"
proof -
  have c: "select_columns KeyError (categorical_features (features ft)) X = Inr cat_cols"
    and n: "select_columns KeyError (numeric_features (features ft)) X = Inr num_cols"
    using assms(3,4) by (simp_all add: select_columns_Inr)
  have b: "sequence (map (\<lambda>(cats, c). sequence (map (encode_cell (unknown (features ft)) cats) (cells c)))
                        (zip (categories ft) cat_cols))
        = Inr (map (\<lambda>(cats, c). map (\<lambda>v. map (\<lambda>k. Some (if k = v then 1 else 0)) cats) (cells c))
                  (zip (categories ft) cat_cols))"
    by (rule sequence_map_Inr) (auto simp: assms(1) encode_cell_ignore intro!: sequence_map_Inr)
  have "scale_cell st v = Inr (case v of
                                      Num r \<Rightarrow> (case st of None \<Rightarrow> None
                                                 | Some (m, s) \<Rightarrow> Some ((r - m) / s))
                                    | _ \<Rightarrow> None)"
    if "\<forall>s. v \<noteq> Str s" for st v
    using that by (cases v) (simp_all add: scale_cell_def)
  then have s: "sequence (map (\<lambda>(st, c). sequence (map (scale_cell st) (cells c)))
                        (zip (scaling ft) num_cols))
        = Inr (map (\<lambda>(st, c). map (\<lambda>v. case v of
                                      Num r \<Rightarrow> (case st of None \<Rightarrow> None
                                                 | Some (m, s) \<Rightarrow> Some ((r - m) / s))
                                    | _ \<Rightarrow> None) (cells c))
                  (zip (scaling ft) num_cols))"
    using assms(5)
    by (intro sequence_map_Inr) (auto dest!: set_zip_rightD intro!: sequence_map_Inr)
  show ?thesis
    unfolding ct_transform_def c n and_then_Inr if_not_P [OF assms(2)] b s ..
qed

lemma ct_fit_preprocess:
  assumes "ct_fit (preprocess X_train) X_train = Inr ft"
  obtains train_cols where
    "features ft = preprocess X_train"
    "map (\<lambda>n. lookup_col n (columns X_train)) [''Hour'', ''isWeekday'', ''Month'']
       = map Some train_cols"
    "length train_cols = 3" "length (categories ft) = 3"
    "\<forall>k<3. set (categories ft ! k) = set (cells (train_cols ! k))"
proof -
  from assms obtain cat_cols where
    f: "features ft = preprocess X_train"
    and c: "map (\<lambda>n. lookup_col n (columns X_train)) (categorical_features (preprocess X_train))
              = map Some cat_cols"
    and u: "map (\<lambda>c. unique_sorted (cells c)) cat_cols = map Inr (categories ft)"
    by (rule ct_fit_Inr)
  have c': "map (\<lambda>n. lookup_col n (columns X_train)) [''Hour'', ''isWeekday'', ''Month'']
              = map Some cat_cols"
    using c by (simp add: preprocess_def)
  have l: "length cat_cols = 3"
    using lookup_cols_in_frame(1) [OF c'] by simp
  have l': "length (categories ft) = 3"
    using arg_cong [OF u, of length] l by simp
  have "set (categories ft ! k) = set (cells (cat_cols ! k))" if "k < 3" for k
  proof -
    have "map (\<lambda>c. unique_sorted (cells c)) cat_cols ! k = map Inr (categories ft) ! k"
      by (simp only: u)
    then have "unique_sorted (cells (cat_cols ! k)) = Inr (categories ft ! k)"
      using that l l' by simp
    then show ?thesis
      by (rule unique_sorted_set)
  qed
  then have "\<forall>k<3. set (categories ft ! k) = set (cells (cat_cols ! k))"
    by blast
  with f c' l l' show thesis
    by (rule that)
qed

text \<open>
  C5. Let the preprocessor of \<open>preprocess\<close> be fitted on the training features. On a
  frame that has rows, the six feature columns and no string in a numeric column, the
  transform returns a matrix with one row for each row of the frame, whatever the
  categorical values are. The categories of a categorical feature are the values of
  the training column, and where the value of a row in that feature is none of them,
  the encoder returns all zeros for it, and the block of that feature in the row of
  the matrix is all zeros.
\<close>

theorem preprocess_unseen_category_all_zero:
  assumes "ct_fit (preprocess X_train) X_train = Inr ft"
    and "wf_frame X" and "index X \<noteq> []"
    and "map (\<lambda>n. lookup_col n (columns X)) [''Hour'', ''isWeekday'', ''Month'']
           = map Some cat_cols"
    and "map (\<lambda>n. lookup_col n (columns X)) [''Globalstraling'', ''Solskinstid'', ''Lufttemperatur'']
           = map Some num_cols"
    and "\<forall>c \<in> set num_cols. \<forall>v \<in> set (cells c). \<forall>s. v \<noteq> Str s"
  shows "\<exists>M train_cols.
     ct_transform ft X = Inr M \<and> length M = length (index X) \<and>
     map (\<lambda>n. lookup_col n (columns X_train)) [''Hour'', ''isWeekday'', ''Month'']
       = map Some train_cols \<and>
     (\<forall>k<3. set (categories ft ! k) = set (cells (train_cols ! k))) \<and>
     (\<forall>k<3. \<forall>i<length (index X).
        cells (cat_cols ! k) ! i \<notin> set (cells (train_cols ! k)) \<longrightarrow>
        encode_cell (unknown (preprocess X_train)) (categories ft ! k) (cells (cat_cols ! k) ! i)
          = Inr (replicate (length (categories ft ! k)) (Some 0)) \<and>
        take (length (categories ft ! k))
             (drop (sum_list (map length (take k (categories ft)))) (M ! i))
          = replicate (length (categories ft ! k)) (Some 0))"
proof -
  from assms(1) obtain train_cols where
    f: "features ft = preprocess X_train"
    and tc: "map (\<lambda>n. lookup_col n (columns X_train)) [''Hour'', ''isWeekday'', ''Month'']
               = map Some train_cols"
    and ltc: "length train_cols = 3"
    and lc: "length (categories ft) = 3"
    and sets: "\<forall>k<3. set (categories ft ! k) = set (cells (train_cols ! k))"
    by (rule ct_fit_preprocess)
  let ?blocks = "map (\<lambda>(cats, c). map (\<lambda>v. map (\<lambda>k. Some (if k = v then 1 else 0 :: real)) cats) (cells c))
                  (zip (categories ft) cat_cols)"
  let ?scaled = "map (\<lambda>(st, c). map (\<lambda>v. case v of
                                      Num r \<Rightarrow> (case st of None \<Rightarrow> None
                                                 | Some (m, s) \<Rightarrow> Some ((r - m) / s))
                                    | _ \<Rightarrow> None) (cells c))
                  (zip (scaling ft) num_cols)"
  let ?M = "map (\<lambda>i. concat (map (\<lambda>b. b ! i) ?blocks) @ map (\<lambda>s. s ! i) ?scaled)
             [0..<length (index X)]"
  have M: "ct_transform ft X = Inr ?M"
    by (rule ct_transform_ignore) (use assms(3,4,5,6) in \<open>simp_all add: f preprocess_def\<close>)
  have lM: "length ?M = length (index X)"
    by simp
  have lcc: "length cat_cols = 3"
    using lookup_cols_in_frame(1) [OF assms(4)] by simp
  have lcells: "length (cells (cat_cols ! k)) = length (index X)" if "k < 3" for k
  proof -
    have "cat_cols ! k \<in> set (columns X)"
      using lookup_cols_in_frame(2) [OF assms(4)] that lcc by (auto simp: subset_iff)
    then show ?thesis
      using assms(2) by (simp add: wf_frame_def list_all_iff)
  qed
  have zero: "encode_cell (unknown (preprocess X_train)) (categories ft ! k) (cells (cat_cols ! k) ! i)
          = Inr (replicate (length (categories ft ! k)) (Some 0)) \<and>
        take (length (categories ft ! k))
             (drop (sum_list (map length (take k (categories ft)))) (?M ! i))
          = replicate (length (categories ft ! k)) (Some 0)"
    if k: "k < 3" and i: "i < length (index X)"
      and un: "cells (cat_cols ! k) ! i \<notin> set (cells (train_cols ! k))" for k i
  proof -
    let ?bs = "map (\<lambda>b. b ! i) ?blocks"
    have un': "cells (cat_cols ! k) ! i \<notin> set (categories ft ! k)"
      using un sets k by simp
    have lb: "length ?bs = 3"
      using lc lcc by simp
    have nth: "?bs ! j = map (\<lambda>c. Some (if c = cells (cat_cols ! j) ! i then 1 else 0))
                           (categories ft ! j)" if "j < 3" for j
      using that lc lcc lcells [OF that] i by simp
    have "map length ?bs = map length (categories ft)"
      using lb lc nth by (intro nth_equalityI) simp_all
    then have off: "sum_list (map length (take k ?bs)) = sum_list (map length (take k (categories ft)))"
      by (simp add: take_map [symmetric])
    have "?bs ! k = replicate (length (categories ft ! k)) (Some 0)"
      unfolding nth [OF k] using un' by (intro replicate_eqI) auto
    moreover have "take (length (?bs ! k))
            (drop (sum_list (map length (take k ?bs))) (concat ?bs @ map (\<lambda>s. s ! i) ?scaled))
          = ?bs ! k"
      by (rule block_of_concat) (use lb k in simp)
    moreover have "?M ! i = concat ?bs @ map (\<lambda>s. s ! i) ?scaled"
      using i by simp
    ultimately have "take (length (categories ft ! k))
             (drop (sum_list (map length (take k (categories ft)))) (?M ! i))
          = replicate (length (categories ft ! k)) (Some 0)"
      using off by simp
    moreover have "encode_cell (unknown (preprocess X_train)) (categories ft ! k)
          (cells (cat_cols ! k) ! i) = Inr (replicate (length (categories ft ! k)) (Some 0))"
      using un' by (simp add: preprocess_def encode_cell_unseen)
    ultimately show ?thesis
      by blast
  qed
  show ?thesis
    by (intro exI [of _ ?M] exI [of _ train_cols] conjI allI impI M lM tc)
       (use sets zero in simp_all)
qed


lemma example_fit: "ct_fit (preprocess example_X_train) example_X_train = Inr example_fitted"
proof -
  have c: "select_columns ValueError [''Hour'', ''isWeekday'', ''Month''] example_X_train
    = Inr [\<lparr>cname = ''Hour'', dtype = Object, cells = [Num 5, Num 6, Num 5, Num 6]\<rparr>,
           \<lparr>cname = ''isWeekday'', dtype = Object, cells = [Num 0, Num 0, Num 0, Num 0]\<rparr>,
           \<lparr>cname = ''Month'', dtype = Object, cells = [Num 1, Num 1, Num 1, Num 1]\<rparr>]"
    by code_simp
  have n: "select_columns ValueError [''Globalstraling'', ''Solskinstid'', ''Lufttemperatur''] example_X_train
    = Inr [\<lparr>cname = ''Globalstraling'', dtype = Float64, cells = [Num 0, Num 2, Num 0, Num 2]\<rparr>,
           \<lparr>cname = ''Solskinstid'', dtype = Float64, cells = [Num 1, Num 1, Num 1, Num 1]\<rparr>,
           \<lparr>cname = ''Lufttemperatur'', dtype = Float64, cells = [Num 2, Num 4, Num 2, Num 4]\<rparr>]"
    by code_simp
  have u: "unique_sorted [Num 5, Num 6, Num 5, Num 6] = Inr [Num 5, Num 6]"
    "unique_sorted [Num 0, Num 0, Num 0, Num 0] = Inr [Num 0]"
    "unique_sorted [Num 1, Num 1, Num 1, Num 1] = Inr [Num 1]"
    by code_simp+
  have s: "scaler_fit [Num 0, Num 2, Num 0, Num 2] = Inr (Some (1, 1))"
    "scaler_fit [Num 1, Num 1, Num 1, Num 1] = Inr (Some (1, 1))"
    "scaler_fit [Num 2, Num 4, Num 2, Num 4] = Inr (Some (3, 1))"
    by (simp_all add: scaler_fit_def power2_eq_square)
  have i: "index example_X_train \<noteq> []"
    by (simp add: example_X_train_def)
  show ?thesis
    unfolding ct_fit_def preprocess_def using i
    by (simp add: c n u s example_fitted_def)
qed

lemma example_validation_columns:
  "wf_frame example_X_validation"
  "index example_X_validation \<noteq> []"
  "map (\<lambda>n. lookup_col n (columns example_X_validation)) [''Hour'', ''isWeekday'', ''Month'']
    = map Some [\<lparr>cname = ''Hour'', dtype = Object, cells = [Num 5, Num 6]\<rparr>,
           \<lparr>cname = ''isWeekday'', dtype = Object, cells = [Num 1, Num 1]\<rparr>,
           \<lparr>cname = ''Month'', dtype = Object, cells = [Num 2, Num 2]\<rparr>]"
  "map (\<lambda>n. lookup_col n (columns example_X_validation))
       [''Globalstraling'', ''Solskinstid'', ''Lufttemperatur'']
    = map Some [\<lparr>cname = ''Globalstraling'', dtype = Float64, cells = [Num 0, Num 2]\<rparr>,
           \<lparr>cname = ''Solskinstid'', dtype = Float64, cells = [Num 1, Num 1]\<rparr>,
           \<lparr>cname = ''Lufttemperatur'', dtype = Float64, cells = [Num 2, Num 4]\<rparr>]"
  by code_simp+

theorem preprocess_unseen_category_all_zero_witness:
  "ct_fit (preprocess example_X_train) example_X_train = Inr example_fitted \<and>
   wf_frame example_X_validation \<and>
   index example_X_validation \<noteq> [] \<and>
   lookup_col ''Month'' (columns example_X_train)
     = Some \<lparr>cname = ''Month'', dtype = Object, cells = [Num 1, Num 1, Num 1, Num 1]\<rparr> \<and>
   lookup_col ''Month'' (columns example_X_validation)
     = Some \<lparr>cname = ''Month'', dtype = Object, cells = [Num 2, Num 2]\<rparr> \<and>
   (\<exists>M. ct_transform example_fitted example_X_validation = Inr M \<and>
        take 1 (drop 3 (M ! 0)) = [Some 0])"
proof -
  let ?cat = "[\<lparr>cname = ''Hour'', dtype = Object, cells = [Num 5, Num 6]\<rparr>,
           \<lparr>cname = ''isWeekday'', dtype = Object, cells = [Num 1, Num 1]\<rparr>,
           \<lparr>cname = ''Month'', dtype = Object, cells = [Num 2, Num 2]\<rparr>]"
  let ?tr = "[\<lparr>cname = ''Hour'', dtype = Object, cells = [Num 5, Num 6, Num 5, Num 6]\<rparr>,
           \<lparr>cname = ''isWeekday'', dtype = Object, cells = [Num 0, Num 0, Num 0, Num 0]\<rparr>,
           \<lparr>cname = ''Month'', dtype = Object, cells = [Num 1, Num 1, Num 1, Num 1]\<rparr>]"
  have tr: "map (\<lambda>n. lookup_col n (columns example_X_train)) [''Hour'', ''isWeekday'', ''Month'']
              = map Some ?tr"
    by code_simp
  have l: "lookup_col ''Month'' (columns example_X_train)
     = Some \<lparr>cname = ''Month'', dtype = Object, cells = [Num 1, Num 1, Num 1, Num 1]\<rparr>"
    "lookup_col ''Month'' (columns example_X_validation)
     = Some \<lparr>cname = ''Month'', dtype = Object, cells = [Num 2, Num 2]\<rparr>"
    by code_simp+
  have nostr: "\<forall>c \<in> set [\<lparr>cname = ''Globalstraling'', dtype = Float64, cells = [Num 0, Num 2]\<rparr>,
           \<lparr>cname = ''Solskinstid'', dtype = Float64, cells = [Num 1, Num 1]\<rparr>,
           \<lparr>cname = ''Lufttemperatur'', dtype = Float64, cells = [Num 2, Num 4]\<rparr>].
         \<forall>v \<in> set (cells c). \<forall>s. v \<noteq> Str s"
    by simp
  from preprocess_unseen_category_all_zero
    [OF example_fit example_validation_columns nostr]
  obtain M train_cols where M: "ct_transform example_fitted example_X_validation = Inr M"
    and t: "map (\<lambda>n. lookup_col n (columns example_X_train)) [''Hour'', ''isWeekday'', ''Month'']
              = map Some train_cols"
    and z: "\<forall>k<3. \<forall>i<length (index example_X_validation).
        cells (?cat ! k) ! i \<notin> set (cells (train_cols ! k)) \<longrightarrow>
        encode_cell (unknown (preprocess example_X_train)) (categories example_fitted ! k)
            (cells (?cat ! k) ! i)
          = Inr (replicate (length (categories example_fitted ! k)) (Some 0)) \<and>
        take (length (categories example_fitted ! k))
             (drop (sum_list (map length (take k (categories example_fitted)))) (M ! i))
          = replicate (length (categories example_fitted ! k)) (Some 0)"
    by blast
  have "map Some train_cols = map Some ?tr"
    using t tr by simp
  then have tc: "train_cols = ?tr"
    by (simp only: map_eq_conv inj_map_eq_map [OF inj_Some])
  have i: "0 < length (index example_X_validation)"
    by (simp add: example_X_validation_def)
  have "take (length (categories example_fitted ! 2))
             (drop (sum_list (map length (take 2 (categories example_fitted)))) (M ! 0))
          = replicate (length (categories example_fitted ! 2)) (Some 0)"
    using z [rule_format, of 2 0] i by (simp add: tc)
  then have "take 1 (drop 3 (M ! 0)) = [Some 0]"
    by (simp add: example_fitted_def eval_nat_numeral)
  with M have "\<exists>M. ct_transform example_fitted example_X_validation = Inr M \<and>
        take 1 (drop 3 (M ! 0)) = [Some 0]"
    by blast
  with example_fit example_validation_columns(1,2) l show ?thesis
    by (intro conjI)
qed

section \<open>Claims about the model evaluator\<close>

lemma numeric_targets_Inr: "numeric_targets cs = Inr ys \<longleftrightarrow> cs = map Num ys"
proof -
  have "map (\<lambda>c. case c of Num r \<Rightarrow> Inr r
                 | _ \<Rightarrow> Inl (ValueError ''Input contains NaN or is not numeric'')) cs
          = map Inr ys \<longleftrightarrow> cs = map Num ys"
  proof (induction cs arbitrary: ys)
    case Nil
    then show ?case by simp
  next
    case (Cons c cs)
    then show ?case by (cases ys; cases c) auto
  qed
  then show ?thesis
    by (simp add: numeric_targets_def sequence_Inr_iff)
qed

lemma mean_squared_error_Inr:
  "mean_squared_error y_true y_pred = Inr MSE \<longleftrightarrow>
     (\<exists>ys. y_true = map Num ys \<and> length ys = length y_pred \<and> ys \<noteq> [] \<and>
           MSE = sum_list (map (\<lambda>(t, p). (t - p)\<^sup>2) (zip ys y_pred)) / real (length ys))"
proof -
  have "mean_squared_error y_true y_pred = Inr MSE \<longleftrightarrow>
     (\<exists>ys. numeric_targets y_true = Inr ys \<and>
        (if length ys \<noteq> length y_pred
         then Inl (ValueError ''Found input variables with inconsistent numbers of samples'')
         else if ys = [] then Inl (ValueError ''Found array with 0 sample(s)'')
         else Inr (sum_list (map (\<lambda>(t, p). (t - p)\<^sup>2) (zip ys y_pred)) / real (length ys)))
        = Inr MSE)"
    unfolding mean_squared_error_def and_then_eq_Inr ..
  also have "\<dots> \<longleftrightarrow> (\<exists>ys. y_true = map Num ys \<and> length ys = length y_pred \<and> ys \<noteq> [] \<and>
           MSE = sum_list (map (\<lambda>(t, p). (t - p)\<^sup>2) (zip ys y_pred)) / real (length ys))"
    unfolding numeric_targets_Inr
    by (intro ex_cong1 conj_cong refl) (auto split: if_splits)
  finally show ?thesis .
qed

lemma squared_errors_same: "sum_list (map (\<lambda>(t, p). (t - p)\<^sup>2) (zip ys ys)) = (0::real)"
  by (induction ys) simp_all

lemma round_half_even_zero: "round_half_even 0 = 0"
  by (simp add: round_half_even_def)

lemma pipeline_fit_Inr:
  "pipeline_fit ct model X y = Inr fitted \<longleftrightarrow>
     (\<exists>M. ct_fit ct X = Inr (fst fitted) \<and> ct_transform (fst fitted) X = Inr M \<and>
          fit model M (cells (col y)) = Inr (snd fitted))"
  by (cases fitted) (auto simp: pipeline_fit_def and_then_eq_Inr)

lemma pipeline_predict_Inr:
  "pipeline_predict model fitted X = Inr y_pred \<longleftrightarrow>
     (\<exists>M. ct_transform (fst fitted) X = Inr M \<and> predict model (snd fitted) M = Inr y_pred)"
  by (simp add: pipeline_predict_def and_then_eq_Inr)

lemma compare_models_Inr:
  "compare_models model X_train y_train X_validation y_validation = Inr r \<longleftrightarrow>
     (\<exists>fitted y_pred MSE.
        pipeline_fit (preprocess X_train) model X_train y_train = Inr fitted \<and>
        pipeline_predict model fitted X_validation = Inr y_pred \<and>
        mean_squared_error (cells (col y_validation)) y_pred = Inr MSE \<and>
        r = round_half_even (sqrt MSE))"
  unfolding compare_models_def and_then_eq_Inr by auto

lemma round_half_even_nearest: "\<bar>of_int (round_half_even p) - p\<bar> \<le> 1 / 2"
proof -
  have "of_int \<lfloor>p\<rfloor> \<le> p" "p < of_int \<lfloor>p\<rfloor> + 1"
    by linarith+
  then show ?thesis
    by (auto simp: round_half_even_def Let_def)
qed

lemma round_half_even_tie:
  "\<bar>of_int (round_half_even p) - p\<bar> = 1 / 2 \<Longrightarrow> even (round_half_even p)"
proof -
  assume a: "\<bar>of_int (round_half_even p) - p\<bar> = 1 / 2"
  have f: "of_int \<lfloor>p\<rfloor> \<le> p" "p < of_int \<lfloor>p\<rfloor> + 1"
    by linarith+
  consider "p - of_int \<lfloor>p\<rfloor> < 1 / 2" | "1 / 2 < p - of_int \<lfloor>p\<rfloor>" | "p - of_int \<lfloor>p\<rfloor> = 1 / 2"
    by linarith
  then show ?thesis
  proof cases
    case 1
    with a f show ?thesis by (simp add: round_half_even_def Let_def)
  next
    case 2
    with a f show ?thesis by (simp add: round_half_even_def Let_def)
  next
    case 3
    then show ?thesis by (simp add: round_half_even_def Let_def)
  qed
qed

text \<open>
  What \<open>round_half_even\<close> returns is the one integer that is at most one half away,
  and even when it is exactly one half away.
\<close>

lemma round_half_even_iff:
  "r = round_half_even p \<longleftrightarrow>
     \<bar>of_int r - p\<bar> \<le> 1 / 2 \<and> (\<bar>of_int r - p\<bar> = 1 / 2 \<longrightarrow> even r)"
proof
  assume "r = round_half_even p"
  then show "\<bar>of_int r - p\<bar> \<le> 1 / 2 \<and> (\<bar>of_int r - p\<bar> = 1 / 2 \<longrightarrow> even r)"
    using round_half_even_nearest [of p] round_half_even_tie [of p] by simp
next
  let ?q = "round_half_even p"
  assume a: "\<bar>of_int r - p\<bar> \<le> 1 / 2 \<and> (\<bar>of_int r - p\<bar> = 1 / 2 \<longrightarrow> even r)"
  note q = round_half_even_nearest [of p]
  show "r = ?q"
  proof (rule ccontr)
    assume ne: "r \<noteq> ?q"
    have "\<bar>(of_int r :: real) - of_int ?q\<bar> \<le> 1"
      using a q by linarith
    then have "\<bar>r - ?q\<bar> \<le> 1"
      by (metis of_int_diff of_int_abs of_int_le_1_iff)
    with ne have d: "\<bar>r - ?q\<bar> = 1"
      by linarith
    then have "\<bar>(of_int r :: real) - of_int ?q\<bar> = 1"
      by (metis of_int_diff of_int_abs of_int_1)
    with a q have "\<bar>of_int r - p\<bar> = 1 / 2" "\<bar>of_int ?q - p\<bar> = 1 / 2"
      by linarith+
    with a have "even r" "even ?q"
      using round_half_even_tie [of p] by simp_all
    with d show False
      by presburger
  qed
qed

text \<open>
  C7. \<open>compare_models\<close> fits the preprocessor and the estimator on the training
  data, predicts on the validation features with the fitted pipeline, computes the
  RMSE as the square root of the mean of the squared differences between the validation
  targets and the predictions, and reports it rounded: the integer that is at most one
  half away from the RMSE, the even one when two are. It returns that value exactly
  when these steps succeed and the validation targets are numbers, one for each
  prediction. When the predictions are the targets, the mean squared error is 0, its
  root is 0, and 0 is reported.
\<close>

theorem compare_models_reports_rmse:
  "(compare_models model X_train y_train X_validation y_validation = Inr r \<longleftrightarrow>
      (\<exists>ft m M_train M_validation y_pred ys RMSE.
         ct_fit (preprocess X_train) X_train = Inr ft \<and>
         ct_transform ft X_train = Inr M_train \<and>
         fit model M_train (cells (col y_train)) = Inr m \<and>
         ct_transform ft X_validation = Inr M_validation \<and>
         predict model m M_validation = Inr y_pred \<and>
         cells (col y_validation) = map Num ys \<and> length ys = length y_pred \<and> ys \<noteq> [] \<and>
         RMSE = sqrt (sum_list (map (\<lambda>(t, p). (t - p)\<^sup>2) (zip ys y_pred)) / real (length ys)) \<and>
         \<bar>of_int r - RMSE\<bar> \<le> 1 / 2 \<and> (\<bar>of_int r - RMSE\<bar> = 1 / 2 \<longrightarrow> even r))) \<and>
   (\<forall>fitted ys.
      pipeline_fit (preprocess X_train) model X_train y_train = Inr fitted \<and>
      pipeline_predict model fitted X_validation = Inr ys \<and>
      cells (col y_validation) = map Num ys \<and> ys \<noteq> [] \<longrightarrow>
      mean_squared_error (cells (col y_validation)) ys = Inr 0 \<and> sqrt 0 = (0::real) \<and>
      compare_models model X_train y_train X_validation y_validation = Inr 0)"
proof (intro conjI allI impI)
  show "compare_models model X_train y_train X_validation y_validation = Inr r \<longleftrightarrow>
      (\<exists>ft m M_train M_validation y_pred ys RMSE.
         ct_fit (preprocess X_train) X_train = Inr ft \<and>
         ct_transform ft X_train = Inr M_train \<and>
         fit model M_train (cells (col y_train)) = Inr m \<and>
         ct_transform ft X_validation = Inr M_validation \<and>
         predict model m M_validation = Inr y_pred \<and>
         cells (col y_validation) = map Num ys \<and> length ys = length y_pred \<and> ys \<noteq> [] \<and>
         RMSE = sqrt (sum_list (map (\<lambda>(t, p). (t - p)\<^sup>2) (zip ys y_pred)) / real (length ys)) \<and>
         \<bar>of_int r - RMSE\<bar> \<le> 1 / 2 \<and> (\<bar>of_int r - RMSE\<bar> = 1 / 2 \<longrightarrow> even r))"
    (is "?L \<longleftrightarrow> ?R")
  proof
    assume ?L
    then obtain fitted y_pred MSE where
      f: "pipeline_fit (preprocess X_train) model X_train y_train = Inr fitted"
      and p: "pipeline_predict model fitted X_validation = Inr y_pred"
      and e: "mean_squared_error (cells (col y_validation)) y_pred = Inr MSE"
      and r: "r = round_half_even (sqrt MSE)"
      unfolding compare_models_Inr by blast
    from f obtain M_train where
      "ct_fit (preprocess X_train) X_train = Inr (fst fitted)"
      "ct_transform (fst fitted) X_train = Inr M_train"
      "fit model M_train (cells (col y_train)) = Inr (snd fitted)"
      unfolding pipeline_fit_Inr by blast
    moreover from p obtain M_validation where
      "ct_transform (fst fitted) X_validation = Inr M_validation"
      "predict model (snd fitted) M_validation = Inr y_pred"
      unfolding pipeline_predict_Inr by blast
    moreover from e obtain ys where
      "cells (col y_validation) = map Num ys" "length ys = length y_pred" "ys \<noteq> []"
      "MSE = sum_list (map (\<lambda>(t, p). (t - p)\<^sup>2) (zip ys y_pred)) / real (length ys)"
      unfolding mean_squared_error_Inr by blast
    moreover have "\<bar>of_int r - sqrt MSE\<bar> \<le> 1 / 2"
      "\<bar>of_int r - sqrt MSE\<bar> = 1 / 2 \<longrightarrow> even r"
      using r unfolding round_half_even_iff by simp_all
    ultimately show ?R
      by blast
  next
    assume ?R
    then obtain ft m M_train M_validation y_pred ys RMSE where
      a: "ct_fit (preprocess X_train) X_train = Inr ft"
         "ct_transform ft X_train = Inr M_train"
         "fit model M_train (cells (col y_train)) = Inr m"
      and b: "ct_transform ft X_validation = Inr M_validation"
         "predict model m M_validation = Inr y_pred"
      and c: "cells (col y_validation) = map Num ys" "length ys = length y_pred" "ys \<noteq> []"
      and s: "RMSE = sqrt (sum_list (map (\<lambda>(t, p). (t - p)\<^sup>2) (zip ys y_pred)) / real (length ys))"
      and n: "\<bar>of_int r - RMSE\<bar> \<le> 1 / 2 \<and> (\<bar>of_int r - RMSE\<bar> = 1 / 2 \<longrightarrow> even r)"
      by blast
    have r: "r = round_half_even
               (sqrt (sum_list (map (\<lambda>(t, p). (t - p)\<^sup>2) (zip ys y_pred)) / real (length ys)))"
      using n unfolding s round_half_even_iff .
    have "pipeline_fit (preprocess X_train) model X_train y_train = Inr (ft, m)"
      unfolding pipeline_fit_Inr using a by auto
    moreover have "pipeline_predict model (ft, m) X_validation = Inr y_pred"
      unfolding pipeline_predict_Inr using b by auto
    moreover have "mean_squared_error (cells (col y_validation)) y_pred
        = Inr (sum_list (map (\<lambda>(t, p). (t - p)\<^sup>2) (zip ys y_pred)) / real (length ys))"
      unfolding mean_squared_error_Inr using c by blast
    ultimately show ?L
      unfolding compare_models_Inr using r by blast
  qed
next
  fix fitted ys
  assume a: "pipeline_fit (preprocess X_train) model X_train y_train = Inr fitted \<and>
      pipeline_predict model fitted X_validation = Inr ys \<and>
      cells (col y_validation) = map Num ys \<and> ys \<noteq> []"
  have "\<exists>ts. cells (col y_validation) = map Num ts \<and> length ts = length ys \<and> ts \<noteq> [] \<and>
           0 = sum_list (map (\<lambda>(t, p). (t - p)\<^sup>2) (zip ts ys)) / real (length ts)"
    using a by (intro exI [of _ ys]) (simp add: squared_errors_same)
  then have mse: "mean_squared_error (cells (col y_validation)) ys = Inr 0"
    unfolding mean_squared_error_Inr .
  show "mean_squared_error (cells (col y_validation)) ys = Inr 0"
    by (rule mse)
  show "sqrt 0 = (0::real)"
    by simp
  show "compare_models model X_train y_train X_validation y_validation = Inr 0"
    using a mse by (simp add: compare_models_def round_half_even_zero)
qed

lemma example_train_matrix:
  "ct_transform example_fitted example_X_train =
     Inr [[Some 1, Some 0, Some 1, Some 1, Some (- 1), Some 0, Some (- 1)],
          [Some 0, Some 1, Some 1, Some 1, Some 1, Some 0, Some 1],
          [Some 1, Some 0, Some 1, Some 1, Some (- 1), Some 0, Some (- 1)],
          [Some 0, Some 1, Some 1, Some 1, Some 1, Some 0, Some 1]]"
  by code_simp

lemma example_validation_matrix:
  "ct_transform example_fitted example_X_validation =
     Inr [[Some 1, Some 0, Some 0, Some 0, Some (- 1), Some 0, Some (- 1)],
          [Some 0, Some 1, Some 0, Some 0, Some 1, Some 0, Some 1]]"
  by code_simp

lemma example_dummy_fit: "fit dummy M (cells (col example_y_train)) = Inr (61 / 4)"
  by (simp add: dummy_def example_y_train_def numeric_targets_def)

lemma example_pipeline_fit:
  "pipeline_fit (preprocess example_X_train) dummy example_X_train example_y_train
     = Inr (example_fitted, 61 / 4)"
  by (simp add: pipeline_fit_def example_fit example_train_matrix example_dummy_fit)

theorem compare_models_reports_rmse_witness:
  "pipeline_fit (preprocess example_X_train) dummy example_X_train example_y_train
     = Inr (example_fitted, 61 / 4) \<and>
   pipeline_predict dummy (example_fitted, 61 / 4) example_X_validation = Inr [61 / 4, 61 / 4] \<and>
   cells (col example_y_validation) = map Num [61 / 4, 61 / 4] \<and>
   compare_models dummy example_X_train example_y_train example_X_validation example_y_validation
     = Inr 0 \<and>
   cells (col example_y_validation_off) = map Num [71 / 4, 71 / 4] \<and>
   sqrt (sum_list (map (\<lambda>(t, p). (t - p)\<^sup>2) (zip [71 / 4, 71 / 4] [61 / 4, 61 / 4]))
         / real (length [71 / 4, 71 / 4 :: real])) = 5 / 2 \<and>
   compare_models dummy example_X_train example_y_train example_X_validation
     example_y_validation_off = Inr 2"
proof -
  have p: "pipeline_predict dummy (example_fitted, 61 / 4) example_X_validation
           = Inr [61 / 4, 61 / 4]"
    by (simp add: pipeline_predict_def example_validation_matrix dummy_def)
  have y: "cells (col example_y_validation) = map Num [61 / 4, 61 / 4]"
    by (simp add: example_y_validation_def)
  have n: "[61 / 4, 61 / 4] \<noteq> ([] :: real list)"
    by simp
  from compare_models_reports_rmse
    [of dummy example_X_train example_y_train example_X_validation example_y_validation,
     THEN conjunct2, rule_format, of "(example_fitted, 61 / 4)" "[61 / 4, 61 / 4]"]
    example_pipeline_fit p y n
  have zero: "compare_models dummy example_X_train example_y_train example_X_validation
          example_y_validation = Inr 0"
    by blast
  have y': "cells (col example_y_validation_off) = map Num [71 / 4, 71 / 4]"
    by (simp add: example_y_validation_off_def)
  have "sqrt (25 / 4) = 5 / 2"
    by (rule real_sqrt_unique) (simp_all add: power2_eq_square)
  then have s: "sqrt (sum_list (map (\<lambda>(t, p). (t - p)\<^sup>2) (zip [71 / 4, 71 / 4] [61 / 4, 61 / 4]))
         / real (length [71 / 4, 71 / 4 :: real])) = 5 / 2"
    by (simp add: power2_eq_square)
  have d: "predict dummy (61 / 4)
             [[Some 1, Some 0, Some 0, Some 0, Some (- 1), Some 0, Some (- 1)],
              [Some 0, Some 1, Some 0, Some 0, Some 1, Some 0, Some 1]]
           = Inr [61 / 4, 61 / 4]"
    by (simp add: dummy_def)
  have near: "\<bar>of_int 2 - (5 / 2 :: real)\<bar> \<le> 1 / 2 \<and>
      (\<bar>of_int 2 - (5 / 2 :: real)\<bar> = 1 / 2 \<longrightarrow> even (2 :: int))"
    by simp
  have "\<exists>ft m M_train M_validation y_pred ys RMSE.
         ct_fit (preprocess example_X_train) example_X_train = Inr ft \<and>
         ct_transform ft example_X_train = Inr M_train \<and>
         fit dummy M_train (cells (col example_y_train)) = Inr m \<and>
         ct_transform ft example_X_validation = Inr M_validation \<and>
         predict dummy m M_validation = Inr y_pred \<and>
         cells (col example_y_validation_off) = map Num ys \<and>
         length ys = length y_pred \<and> ys \<noteq> [] \<and>
         RMSE = sqrt (sum_list (map (\<lambda>(t, p). (t - p)\<^sup>2) (zip ys y_pred)) / real (length ys)) \<and>
         \<bar>of_int 2 - RMSE\<bar> \<le> 1 / 2 \<and> (\<bar>of_int 2 - RMSE\<bar> = 1 / 2 \<longrightarrow> even (2 :: int))"
    apply (rule exI [of _ example_fitted], rule exI [of _ "61 / 4"])
    apply (rule exI, rule exI, rule exI [of _ "[61 / 4, 61 / 4]"])
    apply (rule exI [of _ "[71 / 4, 71 / 4]"], rule exI [of _ "5 / 2"])
    apply (intro conjI)
              apply (rule example_fit)
             apply (rule example_train_matrix)
            apply (rule example_dummy_fit)
           apply (rule example_validation_matrix)
          apply (rule d)
         apply (rule y')
        apply simp
       apply simp
      apply (rule s [symmetric])
     apply (rule near [THEN conjunct1])
    apply (rule near [THEN conjunct2])
    done
  with compare_models_reports_rmse
    [of dummy example_X_train example_y_train example_X_validation example_y_validation_off 2,
     THEN conjunct1]
  have off: "compare_models dummy example_X_train example_y_train example_X_validation
          example_y_validation_off = Inr 2"
    by (rule iffD2)
  from example_pipeline_fit p y zero y' s off show ?thesis
    by (intro conjI)
qed

section \<open>Facts about the final run\<close>

lemma lookup_col_filter_other:
  "n \<notin> set ds \<Longrightarrow> lookup_col n (filter (\<lambda>c. cname c \<notin> set ds) cs) = lookup_col n cs"
  unfolding lookup_col_def by (rule find_filter_same) auto

lemma select_columns_dropped:
  assumes "set ns \<inter> set ds = {}"
  shows "select_columns missing ns (X\<lparr>columns := filter (\<lambda>c. cname c \<notin> set ds) (columns X)\<rparr>)
         = select_columns missing ns X"
proof -
  have "lookup_col n (filter (\<lambda>c. cname c \<notin> set ds) (columns X)) = lookup_col n (columns X)"
    if "n \<in> set ns" for n
    using that assms by (intro lookup_col_filter_other) auto
  then show ?thesis
    by (simp add: select_columns_def cong: map_cong)
qed


lemma ct_transform_dropped:
  assumes "(set (categorical_features (features ft)) \<union> set (numeric_features (features ft)))
             \<inter> set ds = {}"
  shows "ct_transform ft (X\<lparr>columns := filter (\<lambda>c. cname c \<notin> set ds) (columns X)\<rparr>)
         = ct_transform ft X"
proof -
  have "set (categorical_features (features ft)) \<inter> set ds = {}"
    "set (numeric_features (features ft)) \<inter> set ds = {}"
    using assms by auto
  then show ?thesis
    by (simp add: ct_transform_def select_columns_dropped cong: if_cong)
qed

lemma drop_columns_Inr:
  "drop_columns ns X = Inr X' \<longleftrightarrow>
     set ns \<subseteq> set (map cname (columns X)) \<and>
     X' = X\<lparr>columns := filter (\<lambda>c. cname c \<notin> set ns) (columns X)\<rparr>"
proof -
  have "filter (\<lambda>n. n \<notin> set (map cname (columns X))) ns = []
        \<longleftrightarrow> set ns \<subseteq> set (map cname (columns X))"
    by (auto simp: filter_empty_conv)
  then show ?thesis
    by (auto simp: drop_columns_def split: list.splits)
qed

lemma splitSet_Inr:
  "splitSet df = Inr (X, y) \<longleftrightarrow>
     (\<exists>v. lookup_col ''Volum'' (columns df) = Some v \<and>
          X = df\<lparr>columns := filter (\<lambda>c. cname c \<noteq> ''Volum'') (columns df)\<rparr> \<and>
          y = \<lparr>labels = index df, col = v\<rparr>)"
proof -
  have "lookup_col ''Volum'' (columns df) = Some v \<Longrightarrow> ''Volum'' \<in> set (map cname (columns df))"
    for v
    unfolding lookup_col_def find_Some_iff by (metis in_set_conv_nth image_eqI set_map)
  then show ?thesis
    unfolding splitSet_def and_then_eq_Inr drop_columns_Inr get_attr_def
    by (auto split: option.splits)
qed

lemma set_attr_present:
  assumes "lookup_col n (columns df) = Some c" and "length vals = length (index df)"
  shows "set_attr n vals df =
     Inr (df\<lparr>columns := map (\<lambda>c. if cname c = n then c\<lparr>dtype := Float64, cells := vals\<rparr> else c)
                            (columns df)\<rparr>)"
  using assms by (simp add: set_attr_def)

lemma lookup_col_updated:
  "lookup_col n cs = Some c \<Longrightarrow>
   lookup_col n (map (\<lambda>c. if cname c = n then c\<lparr>dtype := t, cells := vals\<rparr> else c) cs)
     = Some (c\<lparr>dtype := t, cells := vals\<rparr>)"
  unfolding lookup_col_def by (induction cs) (auto split: if_splits)

text \<open>
  The frame that \<open>predictions\<close> returns: the \<open>Volum\<close> cells are the rounded
  predictions, everything else is as in the frame it was given.
\<close>

lemma predictions_Inr:
  assumes v: "lookup_col ''Volum'' (columns df) = Some c"
  shows "predictions KNR fitted X df = Inr out \<longleftrightarrow>
     (\<exists>preds. pipeline_predict KNR fitted X = Inr preds \<and> length preds = length (index df) \<and>
        out = df\<lparr>columns :=
                 map (\<lambda>c. if cname c = ''Volum''
                          then c\<lparr>dtype := Float64,
                                 cells := map (\<lambda>p. Num (of_int (round_half_even p))) preds\<rparr>
                          else c)
                     (columns df)\<rparr>)"
proof -
  have step: "and_then (set_attr ''Volum'' (map Num preds) df) (\<lambda>d1.
           and_then (get_attr ''Volum'' d1) (\<lambda>v.
           set_attr ''Volum'' (map round_cell (cells (col v))) d1))
        = (if length preds = length (index df)
           then Inr (df\<lparr>columns :=
                 map (\<lambda>c. if cname c = ''Volum''
                          then c\<lparr>dtype := Float64,
                                 cells := map (\<lambda>p. Num (of_int (round_half_even p))) preds\<rparr>
                          else c)
                     (columns df)\<rparr>)
           else Inl (ValueError ''Length of values does not match length of index''))"
    for preds
  proof (cases "length preds = length (index df)")
    case False
    with v show ?thesis by (simp add: set_attr_def)
  next
    case True
    let ?d1 = "df\<lparr>columns := map (\<lambda>c. if cname c = ''Volum''
                                      then c\<lparr>dtype := Float64, cells := map Num preds\<rparr> else c)
                                 (columns df)\<rparr>"
    have 1: "set_attr ''Volum'' (map Num preds) df = Inr ?d1"
      using v True by (intro set_attr_present) simp_all
    have l: "lookup_col ''Volum'' (columns ?d1) = Some (c\<lparr>dtype := Float64, cells := map Num preds\<rparr>)"
      using lookup_col_updated [OF v] by simp
    then have 2: "get_attr ''Volum'' ?d1
        = Inr \<lparr>labels = index ?d1, col = c\<lparr>dtype := Float64, cells := map Num preds\<rparr>\<rparr>"
      by (simp add: get_attr_def)
    have 3: "set_attr ''Volum'' (map round_cell (map Num preds)) ?d1
        = Inr (?d1\<lparr>columns := map (\<lambda>c. if cname c = ''Volum''
                    then c\<lparr>dtype := Float64, cells := map round_cell (map Num preds)\<rparr> else c)
                 (columns ?d1)\<rparr>)"
      using l True by (intro set_attr_present) simp_all
    have 4: "map round_cell (map Num preds) = map (\<lambda>p. Num (of_int (round_half_even p))) preds"
      by (simp add: round_cell_def)
    have 5: "map (\<lambda>c. if cname c = ''Volum''
                    then c\<lparr>dtype := Float64, cells := map round_cell (map Num preds)\<rparr> else c)
                 (columns ?d1)
        = map (\<lambda>c. if cname c = ''Volum''
                          then c\<lparr>dtype := Float64,
                                 cells := map (\<lambda>p. Num (of_int (round_half_even p))) preds\<rparr>
                          else c)
                     (columns df)"
      unfolding 4 by (simp add: comp_def cong: if_cong)
    have "and_then (set_attr ''Volum'' (map Num preds) df) (\<lambda>d1.
           and_then (get_attr ''Volum'' d1) (\<lambda>v.
           set_attr ''Volum'' (map round_cell (cells (col v))) d1))
          = set_attr ''Volum'' (map round_cell (map Num preds)) ?d1"
      unfolding 1 and_then_Inr 2 by simp
    also have "\<dots> = Inr (df\<lparr>columns :=
                 map (\<lambda>c. if cname c = ''Volum''
                          then c\<lparr>dtype := Float64,
                                 cells := map (\<lambda>p. Num (of_int (round_half_even p))) preds\<rparr>
                          else c)
                     (columns df)\<rparr>)"
      unfolding 3 5 by simp
    finally show ?thesis
      using True by simp
  qed
  show ?thesis
    unfolding predictions_def and_then_eq_Inr step by auto
qed

section \<open>Claims about the final model and the predictions\<close>

lemma final_run_Inr:
  "final_run KNR training_set test_set toPredict_2022 = Inr (RMSE, out) \<longleftrightarrow>
     (\<exists>X_train y_train X_test y_test X_toPredict y_toPredict fitted.
        splitSet training_set = Inr (X_train, y_train) \<and>
        splitSet test_set = Inr (X_test, y_test) \<and>
        splitSet toPredict_2022 = Inr (X_toPredict, y_toPredict) \<and>
        best_model KNR X_train y_train = Inr fitted \<and>
        test_rmse KNR fitted X_test y_test = Inr RMSE \<and>
        predictions KNR fitted X_toPredict toPredict_2022 = Inr out)"
  by (simp add: final_run_def and_then_eq_Inr split_paired_Ex)

lemma best_model_Inr:
  "best_model KNR X_train y_train = Inr fitted \<longleftrightarrow>
     set [''Globalstraling'', ''Solskinstid''] \<subseteq> set (map cname (columns X_train)) \<and>
     pipeline_fit (preprocess_selected_features (reduced_feature_set X_train)) KNR
       (reduced_feature_set X_train) y_train = Inr fitted"
  unfolding best_model_def and_then_eq_Inr drop_columns_Inr reduced_feature_set_def by auto

lemma test_rmse_Inr:
  "test_rmse KNR fitted X_test y_test = Inr RMSE \<longleftrightarrow>
     set [''Globalstraling'', ''Solskinstid''] \<subseteq> set (map cname (columns X_test)) \<and>
     (\<exists>y_pred MSE.
        pipeline_predict KNR fitted (reduced_feature_set X_test) = Inr y_pred \<and>
        mean_squared_error (cells (col y_test)) y_pred = Inr MSE \<and>
        RMSE = round_half_even (sqrt MSE))"
  unfolding test_rmse_def and_then_eq_Inr drop_columns_Inr reduced_feature_set_def by auto

lemma best_model_features:
  assumes "best_model KNR X_train y_train = Inr fitted"
  shows "features (fst fitted) =
     \<lparr>categorical_features = [''Hour'', ''isWeekday'', ''Month''],
      numeric_features = [''Lufttemperatur''],
      unknown = Unknown_Ignore\<rparr>"
proof -
  from assms have "ct_fit (preprocess_selected_features (reduced_feature_set X_train))
      (reduced_feature_set X_train) = Inr (fst fitted)"
    unfolding best_model_Inr pipeline_fit_Inr by blast
  then have "features (fst fitted) = preprocess_selected_features (reduced_feature_set X_train)"
    by (rule ct_fit_Inr)
  then show ?thesis
    by (simp add: preprocess_selected_features_def)
qed

text \<open>The fitted final pipeline predicts the same on a frame and on its reduced feature set.\<close>

lemma best_model_predict_reduced:
  assumes "best_model KNR X_train y_train = Inr fitted"
  shows "pipeline_predict KNR fitted (reduced_feature_set X) = pipeline_predict KNR fitted X"
proof -
  have "ct_transform (fst fitted) (reduced_feature_set X) = ct_transform (fst fitted) X"
    unfolding reduced_feature_set_def
    by (rule ct_transform_dropped) (simp add: best_model_features [OF assms])
  then show ?thesis
    by (simp add: pipeline_predict_def)
qed

text \<open>
  C8. The frame written as the predictions is the imputed future dataset with the
  cells of \<open>Volum\<close> replaced by the rounded predictions of the fitted pipeline: the
  index and the names and order of the columns are those of the future dataset, every
  column other than \<open>Volum\<close> is the same column, and there is one prediction for
  each row.
\<close>

theorem final_run_overwrites_only_Volum:
  assumes "final_run KNR training_set test_set toPredict_2022 = Inr (RMSE, out)"
  shows "index out = index toPredict_2022 \<and>
     map cname (columns out) = map cname (columns toPredict_2022) \<and>
     (\<exists>X_train y_train X_toPredict y_toPredict fitted preds.
        splitSet training_set = Inr (X_train, y_train) \<and>
        best_model KNR X_train y_train = Inr fitted \<and>
        splitSet toPredict_2022 = Inr (X_toPredict, y_toPredict) \<and>
        pipeline_predict KNR fitted X_toPredict = Inr preds \<and>
        length preds = length (index toPredict_2022) \<and>
        (\<forall>k<length (columns toPredict_2022).
           (cname (columns toPredict_2022 ! k) \<noteq> ''Volum'' \<longrightarrow>
              columns out ! k = columns toPredict_2022 ! k) \<and>
           (cname (columns toPredict_2022 ! k) = ''Volum'' \<longrightarrow>
              cname (columns out ! k) = ''Volum'' \<and>
              cells (columns out ! k) = map (\<lambda>p. Num (of_int (round_half_even p))) preds)))"
proof -
  from assms obtain X_train y_train X_toPredict y_toPredict fitted where
    tr: "splitSet training_set = Inr (X_train, y_train)"
    and fu: "splitSet toPredict_2022 = Inr (X_toPredict, y_toPredict)"
    and bm: "best_model KNR X_train y_train = Inr fitted"
    and pr: "predictions KNR fitted X_toPredict toPredict_2022 = Inr out"
    unfolding final_run_Inr by blast
  from fu obtain v where v: "lookup_col ''Volum'' (columns toPredict_2022) = Some v"
    unfolding splitSet_Inr by blast
  from pr obtain preds where
    p: "pipeline_predict KNR fitted X_toPredict = Inr preds"
    and l: "length preds = length (index toPredict_2022)"
    and out: "out = toPredict_2022\<lparr>columns :=
                 map (\<lambda>c. if cname c = ''Volum''
                          then c\<lparr>dtype := Float64,
                                 cells := map (\<lambda>p. Num (of_int (round_half_even p))) preds\<rparr>
                          else c)
                     (columns toPredict_2022)\<rparr>"
    unfolding predictions_Inr [OF v] by blast
  have i: "index out = index toPredict_2022"
    by (simp add: out)
  have n: "map cname (columns out) = map cname (columns toPredict_2022)"
    by (simp add: out comp_def cong: if_cong)
  have c: "\<forall>k<length (columns toPredict_2022).
           (cname (columns toPredict_2022 ! k) \<noteq> ''Volum'' \<longrightarrow>
              columns out ! k = columns toPredict_2022 ! k) \<and>
           (cname (columns toPredict_2022 ! k) = ''Volum'' \<longrightarrow>
              cname (columns out ! k) = ''Volum'' \<and>
              cells (columns out ! k) = map (\<lambda>p. Num (of_int (round_half_even p))) preds)"
    by (simp add: out)
  from tr bm fu p l c have "\<exists>X_train y_train X_toPredict y_toPredict fitted preds.
        splitSet training_set = Inr (X_train, y_train) \<and>
        best_model KNR X_train y_train = Inr fitted \<and>
        splitSet toPredict_2022 = Inr (X_toPredict, y_toPredict) \<and>
        pipeline_predict KNR fitted X_toPredict = Inr preds \<and>
        length preds = length (index toPredict_2022) \<and>
        (\<forall>k<length (columns toPredict_2022).
           (cname (columns toPredict_2022 ! k) \<noteq> ''Volum'' \<longrightarrow>
              columns out ! k = columns toPredict_2022 ! k) \<and>
           (cname (columns toPredict_2022 ! k) = ''Volum'' \<longrightarrow>
              cname (columns out ! k) = ''Volum'' \<and>
              cells (columns out ! k) = map (\<lambda>p. Num (of_int (round_half_even p))) preds))"
    by blast
  with i n show ?thesis
    by (intro conjI)
qed

text \<open>
  C2. In the final run the pipeline of the selected preprocessor (the three
  categorical features and \<open>Lufttemperatur\<close>) and the chosen model is fitted on the
  training features without \<open>Globalstraling\<close> and \<open>Solskinstid\<close>; the reported
  value is its rounded RMSE on the test features without these two columns; its
  predictions for the future features are its predictions on their reduced feature
  set (the notebook passes all the future features, and the pipeline reads the
  selected ones only); and the \<open>Volum\<close> column of the output holds these predictions,
  each rounded to an integer at most one half away.
\<close>

theorem final_run_uses_reduced_features:
  assumes "final_run KNR training_set test_set toPredict_2022 = Inr (RMSE, out)"
  shows "\<exists>X_train y_train X_test y_test X_toPredict y_toPredict fitted y_pred ys preds v.
     splitSet training_set = Inr (X_train, y_train) \<and>
     splitSet test_set = Inr (X_test, y_test) \<and>
     splitSet toPredict_2022 = Inr (X_toPredict, y_toPredict) \<and>
     pipeline_fit
       \<lparr>categorical_features = [''Hour'', ''isWeekday'', ''Month''],
        numeric_features = [''Lufttemperatur''], unknown = Unknown_Ignore\<rparr>
       KNR (reduced_feature_set X_train) y_train = Inr fitted \<and>
     pipeline_predict KNR fitted (reduced_feature_set X_test) = Inr y_pred \<and>
     cells (col y_test) = map Num ys \<and> length ys = length y_pred \<and> ys \<noteq> [] \<and>
     RMSE = round_half_even
              (sqrt (sum_list (map (\<lambda>(t, p). (t - p)\<^sup>2) (zip ys y_pred)) / real (length ys))) \<and>
     pipeline_predict KNR fitted (reduced_feature_set X_toPredict) = Inr preds \<and>
     lookup_col ''Volum'' (columns out) = Some v \<and>
     cells v = map (\<lambda>p. Num (of_int (round_half_even p))) preds \<and>
     (\<forall>p \<in> set preds. \<bar>of_int (round_half_even p) - p\<bar> \<le> 1 / 2)"
proof -
  from assms obtain X_train y_train X_test y_test X_toPredict y_toPredict fitted where
    tr: "splitSet training_set = Inr (X_train, y_train)"
    and te: "splitSet test_set = Inr (X_test, y_test)"
    and fu: "splitSet toPredict_2022 = Inr (X_toPredict, y_toPredict)"
    and bm: "best_model KNR X_train y_train = Inr fitted"
    and rm: "test_rmse KNR fitted X_test y_test = Inr RMSE"
    and pr: "predictions KNR fitted X_toPredict toPredict_2022 = Inr out"
    unfolding final_run_Inr by blast
  from bm have fit: "pipeline_fit
       \<lparr>categorical_features = [''Hour'', ''isWeekday'', ''Month''],
        numeric_features = [''Lufttemperatur''], unknown = Unknown_Ignore\<rparr>
       KNR (reduced_feature_set X_train) y_train = Inr fitted"
    unfolding best_model_Inr by (simp add: preprocess_selected_features_def)
  from rm obtain y_pred MSE where
    yp: "pipeline_predict KNR fitted (reduced_feature_set X_test) = Inr y_pred"
    and mse: "mean_squared_error (cells (col y_test)) y_pred = Inr MSE"
    and r: "RMSE = round_half_even (sqrt MSE)"
    unfolding test_rmse_Inr by blast
  from mse obtain ys where
    ys: "cells (col y_test) = map Num ys" "length ys = length y_pred" "ys \<noteq> []"
    and m: "MSE = sum_list (map (\<lambda>(t, p). (t - p)\<^sup>2) (zip ys y_pred)) / real (length ys)"
    unfolding mean_squared_error_Inr by blast
  from fu obtain v0 where v0: "lookup_col ''Volum'' (columns toPredict_2022) = Some v0"
    unfolding splitSet_Inr by blast
  from pr obtain preds where
    p: "pipeline_predict KNR fitted X_toPredict = Inr preds"
    and out: "out = toPredict_2022\<lparr>columns :=
                 map (\<lambda>c. if cname c = ''Volum''
                          then c\<lparr>dtype := Float64,
                                 cells := map (\<lambda>p. Num (of_int (round_half_even p))) preds\<rparr>
                          else c)
                     (columns toPredict_2022)\<rparr>"
    unfolding predictions_Inr [OF v0] by blast
  have p': "pipeline_predict KNR fitted (reduced_feature_set X_toPredict) = Inr preds"
    using p by (simp add: best_model_predict_reduced [OF bm])
  let ?v = "v0\<lparr>dtype := Float64, cells := map (\<lambda>p. Num (of_int (round_half_even p))) preds\<rparr>"
  have v: "lookup_col ''Volum'' (columns out) = Some ?v"
    using lookup_col_updated [OF v0] by (simp add: out)
  have c: "cells ?v = map (\<lambda>p. Num (of_int (round_half_even p))) preds"
    by simp
  have n: "\<forall>p \<in> set preds. \<bar>of_int (round_half_even p) - p\<bar> \<le> 1 / 2"
    using round_half_even_nearest by blast
  from tr te fu fit yp ys r [unfolded m] p' v c n show ?thesis
    by blast
qed


lemma example_splits:
  "splitSet example_train = Inr (example_X_train, example_y_train)"
  "splitSet example_test = Inr (example_X_test, example_y_test)"
  "splitSet example_future = Inr (example_X_future, example_y_future)"
  by code_simp+

lemma example_selected_fit:
  "ct_fit (preprocess_selected_features (reduced_feature_set example_X_train))
     (reduced_feature_set example_X_train) = Inr example_selected_fitted"
proof -
  have c: "select_columns ValueError [''Hour'', ''isWeekday'', ''Month''] (reduced_feature_set example_X_train)
    = Inr [\<lparr>cname = ''Hour'', dtype = Object, cells = [Num 5, Num 6, Num 5, Num 6]\<rparr>,
           \<lparr>cname = ''isWeekday'', dtype = Object, cells = [Num 0, Num 0, Num 0, Num 0]\<rparr>,
           \<lparr>cname = ''Month'', dtype = Object, cells = [Num 1, Num 1, Num 1, Num 1]\<rparr>]"
    by code_simp
  have n: "select_columns ValueError [''Lufttemperatur''] (reduced_feature_set example_X_train)
    = Inr [\<lparr>cname = ''Lufttemperatur'', dtype = Float64, cells = [Num 2, Num 4, Num 2, Num 4]\<rparr>]"
    by code_simp
  have u: "unique_sorted [Num 5, Num 6, Num 5, Num 6] = Inr [Num 5, Num 6]"
    "unique_sorted [Num 0, Num 0, Num 0, Num 0] = Inr [Num 0]"
    "unique_sorted [Num 1, Num 1, Num 1, Num 1] = Inr [Num 1]"
    by code_simp+
  have s: "scaler_fit [Num 2, Num 4, Num 2, Num 4] = Inr (Some (3, 1))"
    by (simp add: scaler_fit_def power2_eq_square)
  have i: "index (reduced_feature_set example_X_train) \<noteq> []"
    by (simp add: example_X_train_def reduced_feature_set_def)
  show ?thesis
    unfolding ct_fit_def preprocess_selected_features_def using i
    by (simp add: c n u s example_selected_fitted_def)
qed

lemma example_selected_matrices:
  "ct_transform example_selected_fitted (reduced_feature_set example_X_train) =
     Inr [[Some 1, Some 0, Some 1, Some 1, Some (- 1)],
          [Some 0, Some 1, Some 1, Some 1, Some 1],
          [Some 1, Some 0, Some 1, Some 1, Some (- 1)],
          [Some 0, Some 1, Some 1, Some 1, Some 1]]"
  "ct_transform example_selected_fitted (reduced_feature_set example_X_test) =
     Inr [[Some 1, Some 0, Some 0, Some 0, Some (- 1)],
          [Some 0, Some 1, Some 0, Some 0, Some 1]]"
  "ct_transform example_selected_fitted example_X_future =
     Inr [[Some 1, Some 0, Some 0, Some 0, Some (- 1)],
          [Some 0, Some 1, Some 0, Some 0, Some 1]]"
  by code_simp+

lemma example_best_model:
  "best_model dummy example_X_train example_y_train = Inr (example_selected_fitted, 61 / 4)"
proof -
  have "set [''Globalstraling'', ''Solskinstid''] \<subseteq> set (map cname (columns example_X_train))"
    by (simp add: example_X_train_def)
  then show ?thesis
    unfolding best_model_Inr pipeline_fit_Inr
    by (simp add: example_selected_fit example_selected_matrices example_dummy_fit)
qed

lemma example_test_rmse:
  "test_rmse dummy (example_selected_fitted, 61 / 4) example_X_test example_y_test = Inr 1"
proof -
  have d: "set [''Globalstraling'', ''Solskinstid''] \<subseteq> set (map cname (columns example_X_test))"
    by (simp add: example_X_test_def)
  have p: "pipeline_predict dummy (example_selected_fitted, 61 / 4)
             (reduced_feature_set example_X_test) = Inr [61 / 4, 61 / 4]"
    by (simp add: pipeline_predict_def example_selected_matrices dummy_def)
  have m: "mean_squared_error (cells (col example_y_test)) [61 / 4, 61 / 4] = Inr 1"
    by (simp add: mean_squared_error_def example_y_test_def numeric_targets_def
        power2_eq_square)
  have r: "1 = round_half_even (sqrt 1)"
    by (simp add: round_half_even_def)
  show ?thesis
    unfolding test_rmse_Inr using d p m r by blast
qed

lemma example_written:
  "predictions dummy (example_selected_fitted, 61 / 4) example_X_future example_future
     = Inr example_predictions"
proof -
  have v: "lookup_col ''Volum'' (columns example_future)
      = Some \<lparr>cname = ''Volum'', dtype = Float64, cells = [NaN, NaN]\<rparr>"
    by code_simp
  have p: "pipeline_predict dummy (example_selected_fitted, 61 / 4) example_X_future
      = Inr [61 / 4, 61 / 4]"
    by (simp add: pipeline_predict_def example_selected_matrices dummy_def)
  have r: "round_half_even (61 / 4) = 15"
    by (simp add: round_half_even_def)
  have "example_predictions = example_future\<lparr>columns :=
                 map (\<lambda>c. if cname c = ''Volum''
                          then c\<lparr>dtype := Float64,
                                 cells := map (\<lambda>p. Num (of_int (round_half_even p))) [61 / 4, 61 / 4]\<rparr>
                          else c)
                     (columns example_future)\<rparr>"
    by (simp add: example_predictions_def example_future_def r)
  moreover have "length [61 / 4, 61 / 4 :: real] = length (index example_future)"
    by (simp add: example_future_def)
  ultimately show ?thesis
    unfolding predictions_Inr [OF v] using p by blast
qed

lemma example_final_run:
  "final_run dummy example_train example_test example_future = Inr (1, example_predictions)"
  unfolding final_run_Inr
  using example_splits example_best_model example_test_rmse example_written by blast


theorem final_run_overwrites_only_Volum_witness:
  "final_run dummy example_train example_test example_future = Inr (1, example_predictions) \<and>
   index example_predictions = index example_future \<and>
   map cname (columns example_predictions) = map cname (columns example_future) \<and>
   columns example_predictions ! 5 = columns example_future ! 5 \<and>
   cname (columns example_predictions ! 6) = ''Volum''"
proof -
  note T = final_run_overwrites_only_Volum [OF example_final_run]
  from T obtain preds where
    c: "\<forall>k<length (columns example_future).
           (cname (columns example_future ! k) \<noteq> ''Volum'' \<longrightarrow>
              columns example_predictions ! k = columns example_future ! k) \<and>
           (cname (columns example_future ! k) = ''Volum'' \<longrightarrow>
              cname (columns example_predictions ! k) = ''Volum'' \<and>
              cells (columns example_predictions ! k)
                = map (\<lambda>p. Num (of_int (round_half_even p))) preds)"
    by blast
  have l: "5 < length (columns example_future)" "6 < length (columns example_future)"
    and n: "cname (columns example_future ! 5) \<noteq> ''Volum''"
      "cname (columns example_future ! 6) = ''Volum''"
    by (simp_all add: example_future_def)
  from c [rule_format, OF l(1)] n(1)
  have 5: "columns example_predictions ! 5 = columns example_future ! 5"
    by blast
  from c [rule_format, OF l(2)] n(2)
  have 6: "cname (columns example_predictions ! 6) = ''Volum''"
    by blast
  from T have "index example_predictions = index example_future"
    "map cname (columns example_predictions) = map cname (columns example_future)"
    by blast+
  with example_final_run 5 6 show ?thesis
    by (intro conjI)
qed

theorem final_run_uses_reduced_features_witness:
  "final_run dummy example_train example_test example_future = Inr (1, example_predictions) \<and>
   (\<exists>fitted preds v.
      pipeline_predict dummy fitted (reduced_feature_set example_X_future) = Inr preds \<and>
      lookup_col ''Volum'' (columns example_predictions) = Some v \<and>
      cells v = map (\<lambda>p. Num (of_int (round_half_even p))) preds)"
proof -
  from final_run_uses_reduced_features [OF example_final_run]
  obtain X_toPredict y_toPredict fitted preds v where
    s: "splitSet example_future = Inr (X_toPredict, y_toPredict)"
    and p: "pipeline_predict dummy fitted (reduced_feature_set X_toPredict) = Inr preds"
    and v: "lookup_col ''Volum'' (columns example_predictions) = Some v"
    and c: "cells v = map (\<lambda>p. Num (of_int (round_half_even p))) preds"
    by blast
  from s example_splits(3) have "X_toPredict = example_X_future"
    by simp
  with p v c have "\<exists>fitted preds v.
      pipeline_predict dummy fitted (reduced_feature_set example_X_future) = Inr preds \<and>
      lookup_col ''Volum'' (columns example_predictions) = Some v \<and>
      cells v = map (\<lambda>p. Num (of_int (round_half_even p))) preds"
    by blast
  with example_final_run show ?thesis
    by (intro conjI)
qed

section \<open>Claims about fitting\<close>


lemma select_columns_cong:
  assumes "\<forall>n \<in> set ns. lookup_col n (columns X') = lookup_col n (columns X)"
  shows "select_columns missing ns X' = select_columns missing ns X"
  using assms by (simp add: select_columns_def cong: map_cong)

text \<open>
  The fitted transformer depends on the training frame only through the feature columns
  it reads (and on whether the frame has rows).
\<close>

lemma ct_fit_cong:
  assumes "index X' = [] \<longleftrightarrow> index X = []"
    and "\<forall>n \<in> set (categorical_features ct) \<union> set (numeric_features ct).
           lookup_col n (columns X') = lookup_col n (columns X)"
  shows "ct_fit ct X' = ct_fit ct X"
proof -
  have "select_columns ValueError (categorical_features ct) X'
          = select_columns ValueError (categorical_features ct) X"
    "select_columns ValueError (numeric_features ct) X'
          = select_columns ValueError (numeric_features ct) X"
    using assms(2) by (simp_all add: select_columns_cong)
  then show ?thesis
    using assms(1) by (simp add: ct_fit_def cong: if_cong)
qed

text \<open>The final run, step by step.\<close>

lemma final_run_steps:
  "final_run model training_set test_set toPredict_2022 = Inr (RMSE, out) \<longleftrightarrow>
     (\<exists>X y X_test y_test X_toPredict y_toPredict ft m M_test y_pred MSE M_future preds.
        splitSet training_set = Inr (X, y) \<and>
        splitSet test_set = Inr (X_test, y_test) \<and>
        splitSet toPredict_2022 = Inr (X_toPredict, y_toPredict) \<and>
        set [''Globalstraling'', ''Solskinstid''] \<subseteq> set (map cname (columns X)) \<and>
        set [''Globalstraling'', ''Solskinstid''] \<subseteq> set (map cname (columns X_test)) \<and>
        pipeline_fit (preprocess_selected_features (reduced_feature_set X)) model
          (reduced_feature_set X) y = Inr (ft, m) \<and>
        ct_transform ft (reduced_feature_set X_test) = Inr M_test \<and>
        predict model m M_test = Inr y_pred \<and>
        mean_squared_error (cells (col y_test)) y_pred = Inr MSE \<and>
        RMSE = round_half_even (sqrt MSE) \<and>
        ct_transform ft X_toPredict = Inr M_future \<and>
        predict model m M_future = Inr preds \<and>
        length preds = length (index toPredict_2022) \<and>
        out = toPredict_2022\<lparr>columns :=
                 map (\<lambda>c. if cname c = ''Volum''
                          then c\<lparr>dtype := Float64,
                                 cells := map (\<lambda>p. Num (of_int (round_half_even p))) preds\<rparr>
                          else c)
                     (columns toPredict_2022)\<rparr>)"
  (is "?L \<longleftrightarrow> ?R")
proof
  assume ?L
  then obtain X y X_test y_test X_toPredict y_toPredict fitted where
    s: "splitSet training_set = Inr (X, y)" "splitSet test_set = Inr (X_test, y_test)"
      "splitSet toPredict_2022 = Inr (X_toPredict, y_toPredict)"
    and bm: "best_model model X y = Inr fitted"
    and rm: "test_rmse model fitted X_test y_test = Inr RMSE"
    and pr: "predictions model fitted X_toPredict toPredict_2022 = Inr out"
    unfolding final_run_Inr by blast
  obtain ft m where fitted: "fitted = (ft, m)"
    by (cases fitted)
  from bm have d: "set [''Globalstraling'', ''Solskinstid''] \<subseteq> set (map cname (columns X))"
    and f: "pipeline_fit (preprocess_selected_features (reduced_feature_set X)) model
             (reduced_feature_set X) y = Inr (ft, m)"
    unfolding best_model_Inr fitted by blast+
  from rm obtain y_pred MSE where
    d': "set [''Globalstraling'', ''Solskinstid''] \<subseteq> set (map cname (columns X_test))"
    and t: "pipeline_predict model (ft, m) (reduced_feature_set X_test) = Inr y_pred"
    and e: "mean_squared_error (cells (col y_test)) y_pred = Inr MSE"
    and r: "RMSE = round_half_even (sqrt MSE)"
    unfolding test_rmse_Inr fitted by blast
  from t obtain M_test where
    t': "ct_transform ft (reduced_feature_set X_test) = Inr M_test"
      "predict model m M_test = Inr y_pred"
    unfolding pipeline_predict_Inr by auto
  from s(3) obtain v where v: "lookup_col ''Volum'' (columns toPredict_2022) = Some v"
    unfolding splitSet_Inr by blast
  from pr [unfolded predictions_Inr [OF v] fitted] obtain preds where
    p: "pipeline_predict model (ft, m) X_toPredict = Inr preds"
    and l: "length preds = length (index toPredict_2022)"
    and o: "out = toPredict_2022\<lparr>columns :=
                 map (\<lambda>c. if cname c = ''Volum''
                          then c\<lparr>dtype := Float64,
                                 cells := map (\<lambda>p. Num (of_int (round_half_even p))) preds\<rparr>
                          else c)
                     (columns toPredict_2022)\<rparr>"
    by blast
  from p obtain M_future where
    p': "ct_transform ft X_toPredict = Inr M_future" "predict model m M_future = Inr preds"
    unfolding pipeline_predict_Inr by auto
  from s d d' f t' e r p' l o show ?R
    by blast
next
  assume ?R
  then obtain X y X_test y_test X_toPredict y_toPredict ft m M_test y_pred MSE M_future preds
    where s: "splitSet training_set = Inr (X, y)" "splitSet test_set = Inr (X_test, y_test)"
      "splitSet toPredict_2022 = Inr (X_toPredict, y_toPredict)"
    and d: "set [''Globalstraling'', ''Solskinstid''] \<subseteq> set (map cname (columns X))"
    and d': "set [''Globalstraling'', ''Solskinstid''] \<subseteq> set (map cname (columns X_test))"
    and f: "pipeline_fit (preprocess_selected_features (reduced_feature_set X)) model
             (reduced_feature_set X) y = Inr (ft, m)"
    and t: "ct_transform ft (reduced_feature_set X_test) = Inr M_test"
      "predict model m M_test = Inr y_pred"
    and e: "mean_squared_error (cells (col y_test)) y_pred = Inr MSE"
    and r: "RMSE = round_half_even (sqrt MSE)"
    and p: "ct_transform ft X_toPredict = Inr M_future" "predict model m M_future = Inr preds"
    and l: "length preds = length (index toPredict_2022)"
    and o: "out = toPredict_2022\<lparr>columns :=
                 map (\<lambda>c. if cname c = ''Volum''
                          then c\<lparr>dtype := Float64,
                                 cells := map (\<lambda>p. Num (of_int (round_half_even p))) preds\<rparr>
                          else c)
                     (columns toPredict_2022)\<rparr>"
    by blast
  have bm: "best_model model X y = Inr (ft, m)"
    unfolding best_model_Inr using d f by blast
  have "pipeline_predict model (ft, m) (reduced_feature_set X_test) = Inr y_pred"
    unfolding pipeline_predict_Inr using t by auto
  then have rm: "test_rmse model (ft, m) X_test y_test = Inr RMSE"
    unfolding test_rmse_Inr using d' e r by blast
  from s(3) obtain v where v: "lookup_col ''Volum'' (columns toPredict_2022) = Some v"
    unfolding splitSet_Inr by blast
  have "pipeline_predict model (ft, m) X_toPredict = Inr preds"
    unfolding pipeline_predict_Inr using p by auto
  then have pr: "predictions model (ft, m) X_toPredict toPredict_2022 = Inr out"
    unfolding predictions_Inr [OF v] using l o by blast
  from s bm rm pr show ?L
    unfolding final_run_Inr by blast
qed

text \<open>
  One fitted pipeline, that of the training data, serves every validation frame: what is
  reported for a validation frame is computed from it.
\<close>

lemma evaluation_one_fit:
  fixes model :: "'m estimator" and X_train :: "'i frame"
  shows "\<exists>fitted. \<forall>(X_validation :: 'i frame) y_validation r.
     and_then (pipeline_fit c model X_train y_train) (\<lambda>pipe.
     and_then (pipeline_predict model pipe X_validation) (\<lambda>y_pred.
     and_then (mean_squared_error (cells (col y_validation)) y_pred) (\<lambda>MSE.
     Inr (round_half_even (sqrt MSE))))) = Inr r \<longleftrightarrow>
     pipeline_fit c model X_train y_train = Inr fitted \<and>
     (\<exists>M y_pred MSE.
        ct_transform (fst fitted) X_validation = Inr M \<and>
        predict model (snd fitted) M = Inr y_pred \<and>
        mean_squared_error (cells (col y_validation)) y_pred = Inr MSE \<and>
        r = round_half_even (sqrt MSE))"
proof (cases "pipeline_fit c model X_train y_train")
  case (Inl e)
  then show ?thesis
    by simp
next
  case (Inr f0)
  show ?thesis
  proof (intro exI [of _ f0] allI)
    fix X_validation :: "'i frame" and y_validation r
    show "and_then (pipeline_fit c model X_train y_train) (\<lambda>pipe.
     and_then (pipeline_predict model pipe X_validation) (\<lambda>y_pred.
     and_then (mean_squared_error (cells (col y_validation)) y_pred) (\<lambda>MSE.
     Inr (round_half_even (sqrt MSE))))) = Inr r \<longleftrightarrow>
     pipeline_fit c model X_train y_train = Inr f0 \<and>
     (\<exists>M y_pred MSE.
        ct_transform (fst f0) X_validation = Inr M \<and>
        predict model (snd f0) M = Inr y_pred \<and>
        mean_squared_error (cells (col y_validation)) y_pred = Inr MSE \<and>
        r = round_half_even (sqrt MSE))"
      unfolding Inr and_then_Inr and_then_eq_Inr pipeline_predict_Inr by auto
  qed
qed

text \<open>The same for the final run, with the test and the future frame.\<close>

lemma final_run_one_fit:
  fixes model :: "'m estimator" and training_set :: "'i frame"
  shows "\<exists>fitted. \<forall>(test_set :: 'i frame) toPredict_2022 RMSE out.
     final_run model training_set test_set toPredict_2022 = Inr (RMSE, out) \<longleftrightarrow>
     (\<exists>X y. splitSet training_set = Inr (X, y) \<and>
        set [''Globalstraling'', ''Solskinstid''] \<subseteq> set (map cname (columns X)) \<and>
        pipeline_fit (preprocess_selected_features (reduced_feature_set X)) model
          (reduced_feature_set X) y = Inr fitted) \<and>
     (\<exists>X_test y_test M_test y_pred MSE.
        splitSet test_set = Inr (X_test, y_test) \<and>
        set [''Globalstraling'', ''Solskinstid''] \<subseteq> set (map cname (columns X_test)) \<and>
        ct_transform (fst fitted) (reduced_feature_set X_test) = Inr M_test \<and>
        predict model (snd fitted) M_test = Inr y_pred \<and>
        mean_squared_error (cells (col y_test)) y_pred = Inr MSE \<and>
        RMSE = round_half_even (sqrt MSE)) \<and>
     (\<exists>X_toPredict y_toPredict M_future preds.
        splitSet toPredict_2022 = Inr (X_toPredict, y_toPredict) \<and>
        ct_transform (fst fitted) X_toPredict = Inr M_future \<and>
        predict model (snd fitted) M_future = Inr preds \<and>
        length preds = length (index toPredict_2022) \<and>
        out = toPredict_2022\<lparr>columns :=
                 map (\<lambda>c. if cname c = ''Volum''
                          then c\<lparr>dtype := Float64,
                                 cells := map (\<lambda>p. Num (of_int (round_half_even p))) preds\<rparr>
                          else c)
                     (columns toPredict_2022)\<rparr>)"
proof (cases "\<exists>X y f. splitSet training_set = Inr (X, y) \<and> best_model model X y = Inr f")
  case False
  have "final_run model training_set test_set toPredict_2022 \<noteq> Inr (RMSE, out)"
    for test_set :: "'i frame" and toPredict_2022 RMSE out
    using False unfolding final_run_Inr by blast
  moreover have "\<not> (\<exists>X y. splitSet training_set = Inr (X, y) \<and>
        set [''Globalstraling'', ''Solskinstid''] \<subseteq> set (map cname (columns X)) \<and>
        pipeline_fit (preprocess_selected_features (reduced_feature_set X)) model
          (reduced_feature_set X) y = Inr f)" for f
    using False unfolding best_model_Inr by blast
  ultimately show ?thesis
    by blast
next
  case True
  then obtain X y f0 where s: "splitSet training_set = Inr (X, y)"
    and bm: "best_model model X y = Inr f0"
    by blast
  from bm have d: "set [''Globalstraling'', ''Solskinstid''] \<subseteq> set (map cname (columns X))"
    and f: "pipeline_fit (preprocess_selected_features (reduced_feature_set X)) model
          (reduced_feature_set X) y = Inr f0"
    unfolding best_model_Inr by blast+
  show ?thesis
  proof (intro exI [of _ f0] allI)
    fix test_set :: "'i frame" and toPredict_2022 :: "'i frame" and RMSE :: int
      and out :: "'i frame"
    let ?out = "\<lambda>preds. toPredict_2022\<lparr>columns :=
                 map (\<lambda>c. if cname c = ''Volum''
                          then c\<lparr>dtype := Float64,
                                 cells := map (\<lambda>p. Num (of_int (round_half_even p))) preds\<rparr>
                          else c)
                     (columns toPredict_2022)\<rparr>"
    let ?A = "\<exists>X y. splitSet training_set = Inr (X, y) \<and>
        set [''Globalstraling'', ''Solskinstid''] \<subseteq> set (map cname (columns X)) \<and>
        pipeline_fit (preprocess_selected_features (reduced_feature_set X)) model
          (reduced_feature_set X) y = Inr f0"
    let ?B = "\<exists>X_test y_test M_test y_pred MSE.
        splitSet test_set = Inr (X_test, y_test) \<and>
        set [''Globalstraling'', ''Solskinstid''] \<subseteq> set (map cname (columns X_test)) \<and>
        ct_transform (fst f0) (reduced_feature_set X_test) = Inr M_test \<and>
        predict model (snd f0) M_test = Inr y_pred \<and>
        mean_squared_error (cells (col y_test)) y_pred = Inr MSE \<and>
        RMSE = round_half_even (sqrt MSE)"
    let ?C = "\<exists>X_toPredict y_toPredict M_future preds.
        splitSet toPredict_2022 = Inr (X_toPredict, y_toPredict) \<and>
        ct_transform (fst f0) X_toPredict = Inr M_future \<and>
        predict model (snd f0) M_future = Inr preds \<and>
        length preds = length (index toPredict_2022) \<and>
        out = ?out preds"
    have A: ?A
      using s d f by blast
    show "final_run model training_set test_set toPredict_2022 = Inr (RMSE, out)
          \<longleftrightarrow> ?A \<and> ?B \<and> ?C"
    proof
      assume "final_run model training_set test_set toPredict_2022 = Inr (RMSE, out)"
      then obtain X' y' X_test y_test X_toPredict y_toPredict ft m M_test y_pred MSE M_future
          preds
        where s': "splitSet training_set = Inr (X', y')"
          and te: "splitSet test_set = Inr (X_test, y_test)"
          and fu: "splitSet toPredict_2022 = Inr (X_toPredict, y_toPredict)"
          and d': "set [''Globalstraling'', ''Solskinstid''] \<subseteq> set (map cname (columns X_test))"
          and f': "pipeline_fit (preprocess_selected_features (reduced_feature_set X')) model
             (reduced_feature_set X') y' = Inr (ft, m)"
          and t: "ct_transform ft (reduced_feature_set X_test) = Inr M_test"
            "predict model m M_test = Inr y_pred"
            "mean_squared_error (cells (col y_test)) y_pred = Inr MSE"
            "RMSE = round_half_even (sqrt MSE)"
          and p: "ct_transform ft X_toPredict = Inr M_future" "predict model m M_future = Inr preds"
            "length preds = length (index toPredict_2022)" "out = ?out preds"
        unfolding final_run_steps by blast
      from s s' have "X' = X" "y' = y"
        by simp_all
      with f f' have f0: "f0 = (ft, m)"
        by simp
      have ?B
        using te d' t unfolding f0 fst_conv snd_conv by blast
      moreover have ?C
        using fu p unfolding f0 fst_conv snd_conv by blast
      ultimately show "?A \<and> ?B \<and> ?C"
        using A by blast
    next
      assume r: "?A \<and> ?B \<and> ?C"
      obtain ft m where f0: "f0 = (ft, m)"
        by (cases f0)
      from r obtain X_test y_test M_test y_pred MSE where
        te: "splitSet test_set = Inr (X_test, y_test)"
        and d': "set [''Globalstraling'', ''Solskinstid''] \<subseteq> set (map cname (columns X_test))"
        and t: "ct_transform ft (reduced_feature_set X_test) = Inr M_test"
            "predict model m M_test = Inr y_pred"
            "mean_squared_error (cells (col y_test)) y_pred = Inr MSE"
            "RMSE = round_half_even (sqrt MSE)"
        unfolding f0 fst_conv snd_conv by blast
      from r obtain X_toPredict y_toPredict M_future preds where
        fu: "splitSet toPredict_2022 = Inr (X_toPredict, y_toPredict)"
        and p: "ct_transform ft X_toPredict = Inr M_future" "predict model m M_future = Inr preds"
            "length preds = length (index toPredict_2022)" "out = ?out preds"
        unfolding f0 fst_conv snd_conv by blast
      from s te fu d d' f [unfolded f0] t p
      show "final_run model training_set test_set toPredict_2022 = Inr (RMSE, out)"
        unfolding final_run_steps by blast
    qed
  qed
qed

text \<open>
  C6. Every pipeline of the notebook is fitted on the training data alone, and what it
  reports is computed from that fitted pipeline. A pipeline is fitted exactly when the
  preprocessor is fitted on the training features and the model on the transformed
  training features and the training targets. The fitted preprocessor holds the
  categories and the means and scales of the training columns, and it is the same for
  every frame that has the feature columns of the training frame, whatever else that
  frame holds, a target column too; no target is among its arguments. For
  \<open>compare_models\<close>, for the ablation and for the final run there is one fitted
  pipeline, that of the training data, whatever the validation, test and future data
  are: the run returns a value exactly when that pipeline is fitted and the value is
  computed from its predictions on the validation (test, future) features, transformed
  with its preprocessor as it is.
\<close>

theorem pipeline_fit_on_training_only:
  fixes model :: "'m estimator" and X_train :: "'i frame" and training_set :: "'i frame"
  shows "(pipeline_fit ct model X_train y_train = Inr (ft, m) \<longleftrightarrow>
        ct_fit ct X_train = Inr ft \<and>
        (\<exists>M. ct_transform ft X_train = Inr M \<and> fit model M (cells (col y_train)) = Inr m)) \<and>
     (ct_fit ct X_train = Inr ft \<longleftrightarrow>
        index X_train \<noteq> [] \<and> features ft = ct \<and>
        (\<exists>cat_cols num_cols.
           map (\<lambda>n. lookup_col n (columns X_train)) (categorical_features ct) = map Some cat_cols \<and>
           map (\<lambda>n. lookup_col n (columns X_train)) (numeric_features ct) = map Some num_cols \<and>
           map (\<lambda>c. unique_sorted (cells c)) cat_cols = map Inr (categories ft) \<and>
           map (\<lambda>c. scaler_fit (cells c)) num_cols = map Inr (scaling ft))) \<and>
     (\<forall>X' :: 'i frame.
        (index X' = [] \<longleftrightarrow> index X_train = []) \<and>
        (\<forall>n \<in> set (categorical_features ct) \<union> set (numeric_features ct).
           lookup_col n (columns X') = lookup_col n (columns X_train)) \<longrightarrow>
        ct_fit ct X' = ct_fit ct X_train) \<and>
     (\<exists>fitted. \<forall>(X_validation :: 'i frame) y_validation r.
        compare_models model X_train y_train X_validation y_validation = Inr r \<longleftrightarrow>
        pipeline_fit (preprocess X_train) model X_train y_train = Inr fitted \<and>
        (\<exists>M y_pred MSE.
           ct_transform (fst fitted) X_validation = Inr M \<and>
           predict model (snd fitted) M = Inr y_pred \<and>
           mean_squared_error (cells (col y_validation)) y_pred = Inr MSE \<and>
           r = round_half_even (sqrt MSE))) \<and>
     (\<exists>fitted. \<forall>(X_validation :: 'i frame) y_validation r.
        check_feature_compare ct model X_train y_train X_validation y_validation = Inr r \<longleftrightarrow>
        pipeline_fit ct model X_train y_train = Inr fitted \<and>
        (\<exists>M y_pred MSE.
           ct_transform (fst fitted) X_validation = Inr M \<and>
           predict model (snd fitted) M = Inr y_pred \<and>
           mean_squared_error (cells (col y_validation)) y_pred = Inr MSE \<and>
           r = round_half_even (sqrt MSE))) \<and>
     (\<exists>fitted. \<forall>(test_set :: 'i frame) toPredict_2022 RMSE out.
        final_run model training_set test_set toPredict_2022 = Inr (RMSE, out) \<longleftrightarrow>
        (\<exists>X y. splitSet training_set = Inr (X, y) \<and>
           set [''Globalstraling'', ''Solskinstid''] \<subseteq> set (map cname (columns X)) \<and>
           pipeline_fit (preprocess_selected_features (reduced_feature_set X)) model
             (reduced_feature_set X) y = Inr fitted) \<and>
        (\<exists>X_test y_test M_test y_pred MSE.
           splitSet test_set = Inr (X_test, y_test) \<and>
           set [''Globalstraling'', ''Solskinstid''] \<subseteq> set (map cname (columns X_test)) \<and>
           ct_transform (fst fitted) (reduced_feature_set X_test) = Inr M_test \<and>
           predict model (snd fitted) M_test = Inr y_pred \<and>
           mean_squared_error (cells (col y_test)) y_pred = Inr MSE \<and>
           RMSE = round_half_even (sqrt MSE)) \<and>
        (\<exists>X_toPredict y_toPredict M_future preds.
           splitSet toPredict_2022 = Inr (X_toPredict, y_toPredict) \<and>
           ct_transform (fst fitted) X_toPredict = Inr M_future \<and>
           predict model (snd fitted) M_future = Inr preds \<and>
           length preds = length (index toPredict_2022) \<and>
           out = toPredict_2022\<lparr>columns :=
                    map (\<lambda>c. if cname c = ''Volum''
                             then c\<lparr>dtype := Float64,
                                    cells := map (\<lambda>p. Num (of_int (round_half_even p))) preds\<rparr>
                             else c)
                        (columns toPredict_2022)\<rparr>))"
proof (intro conjI)
  show "pipeline_fit ct model X_train y_train = Inr (ft, m) \<longleftrightarrow>
        ct_fit ct X_train = Inr ft \<and>
        (\<exists>M. ct_transform ft X_train = Inr M \<and> fit model M (cells (col y_train)) = Inr m)"
    unfolding pipeline_fit_Inr by auto
  show "ct_fit ct X_train = Inr ft \<longleftrightarrow>
        index X_train \<noteq> [] \<and> features ft = ct \<and>
        (\<exists>cat_cols num_cols.
           map (\<lambda>n. lookup_col n (columns X_train)) (categorical_features ct) = map Some cat_cols \<and>
           map (\<lambda>n. lookup_col n (columns X_train)) (numeric_features ct) = map Some num_cols \<and>
           map (\<lambda>c. unique_sorted (cells c)) cat_cols = map Inr (categories ft) \<and>
           map (\<lambda>c. scaler_fit (cells c)) num_cols = map Inr (scaling ft))"
    by (rule ct_fit_Inr_iff)
  show "\<forall>X' :: 'i frame.
        (index X' = [] \<longleftrightarrow> index X_train = []) \<and>
        (\<forall>n \<in> set (categorical_features ct) \<union> set (numeric_features ct).
           lookup_col n (columns X') = lookup_col n (columns X_train)) \<longrightarrow>
        ct_fit ct X' = ct_fit ct X_train"
  proof (intro allI impI)
    fix X' :: "'i frame"
    assume "(index X' = [] \<longleftrightarrow> index X_train = []) \<and>
        (\<forall>n \<in> set (categorical_features ct) \<union> set (numeric_features ct).
           lookup_col n (columns X') = lookup_col n (columns X_train))"
    then show "ct_fit ct X' = ct_fit ct X_train"
      by (intro ct_fit_cong) blast+
  qed
  show "\<exists>fitted. \<forall>(X_validation :: 'i frame) y_validation r.
        compare_models model X_train y_train X_validation y_validation = Inr r \<longleftrightarrow>
        pipeline_fit (preprocess X_train) model X_train y_train = Inr fitted \<and>
        (\<exists>M y_pred MSE.
           ct_transform (fst fitted) X_validation = Inr M \<and>
           predict model (snd fitted) M = Inr y_pred \<and>
           mean_squared_error (cells (col y_validation)) y_pred = Inr MSE \<and>
           r = round_half_even (sqrt MSE))"
    unfolding compare_models_def by (rule evaluation_one_fit)
  show "\<exists>fitted. \<forall>(X_validation :: 'i frame) y_validation r.
        check_feature_compare ct model X_train y_train X_validation y_validation = Inr r \<longleftrightarrow>
        pipeline_fit ct model X_train y_train = Inr fitted \<and>
        (\<exists>M y_pred MSE.
           ct_transform (fst fitted) X_validation = Inr M \<and>
           predict model (snd fitted) M = Inr y_pred \<and>
           mean_squared_error (cells (col y_validation)) y_pred = Inr MSE \<and>
           r = round_half_even (sqrt MSE))"
    unfolding check_feature_compare_def by (rule evaluation_one_fit)
  show "\<exists>fitted. \<forall>(test_set :: 'i frame) toPredict_2022 RMSE out.
        final_run model training_set test_set toPredict_2022 = Inr (RMSE, out) \<longleftrightarrow>
        (\<exists>X y. splitSet training_set = Inr (X, y) \<and>
           set [''Globalstraling'', ''Solskinstid''] \<subseteq> set (map cname (columns X)) \<and>
           pipeline_fit (preprocess_selected_features (reduced_feature_set X)) model
             (reduced_feature_set X) y = Inr fitted) \<and>
        (\<exists>X_test y_test M_test y_pred MSE.
           splitSet test_set = Inr (X_test, y_test) \<and>
           set [''Globalstraling'', ''Solskinstid''] \<subseteq> set (map cname (columns X_test)) \<and>
           ct_transform (fst fitted) (reduced_feature_set X_test) = Inr M_test \<and>
           predict model (snd fitted) M_test = Inr y_pred \<and>
           mean_squared_error (cells (col y_test)) y_pred = Inr MSE \<and>
           RMSE = round_half_even (sqrt MSE)) \<and>
        (\<exists>X_toPredict y_toPredict M_future preds.
           splitSet toPredict_2022 = Inr (X_toPredict, y_toPredict) \<and>
           ct_transform (fst fitted) X_toPredict = Inr M_future \<and>
           predict model (snd fitted) M_future = Inr preds \<and>
           length preds = length (index toPredict_2022) \<and>
           out = toPredict_2022\<lparr>columns :=
                    map (\<lambda>c. if cname c = ''Volum''
                             then c\<lparr>dtype := Float64,
                                    cells := map (\<lambda>p. Num (of_int (round_half_even p))) preds\<rparr>
                             else c)
                        (columns toPredict_2022)\<rparr>)"
    by (rule final_run_one_fit)
qed

theorem pipeline_fit_on_training_only_witness:
  "pipeline_fit (preprocess example_X_train) dummy example_X_train example_y_train
     = Inr (example_fitted, 61 / 4) \<and>
   lookup_col ''Volum'' (columns example_train)
     = Some \<lparr>cname = ''Volum'', dtype = Float64, cells = [Num 10, Num 20, Num 10, Num 21]\<rparr> \<and>
   ct_fit (preprocess example_X_train) example_train = Inr example_fitted \<and>
   ct_transform example_fitted example_X_validation
     = Inr [[Some 1, Some 0, Some 0, Some 0, Some (- 1), Some 0, Some (- 1)],
            [Some 0, Some 1, Some 0, Some 0, Some 1, Some 0, Some 1]] \<and>
   predict dummy (61 / 4)
     [[Some 1, Some 0, Some 0, Some 0, Some (- 1), Some 0, Some (- 1)],
      [Some 0, Some 1, Some 0, Some 0, Some 1, Some 0, Some 1]] = Inr [61 / 4, 61 / 4] \<and>
   mean_squared_error (cells (col example_y_validation_off)) [61 / 4, 61 / 4] = Inr (25 / 4) \<and>
   compare_models dummy example_X_train example_y_train example_X_validation
     example_y_validation_off = Inr 2 \<and>
   mean_squared_error (cells (col example_y_validation)) [61 / 4, 61 / 4] = Inr 0 \<and>
   compare_models dummy example_X_train example_y_train example_X_validation
     example_y_validation = Inr 0"
proof -
  note T = pipeline_fit_on_training_only
    [where ct = "preprocess example_X_train" and model = dummy and X_train = example_X_train
       and y_train = example_y_train and ft = example_fitted and m = "61 / 4"]
  have "\<exists>M. ct_transform example_fitted example_X_train = Inr M \<and>
            fit dummy M (cells (col example_y_train)) = Inr (61 / 4)"
    using example_train_matrix example_dummy_fit by blast
  with T [THEN conjunct1] example_fit
  have 1: "pipeline_fit (preprocess example_X_train) dummy example_X_train example_y_train
     = Inr (example_fitted, 61 / 4)"
    by blast
  have v: "lookup_col ''Volum'' (columns example_train)
     = Some \<lparr>cname = ''Volum'', dtype = Float64, cells = [Num 10, Num 20, Num 10, Num 21]\<rparr>"
    by code_simp
  have same: "(index example_train = [] \<longleftrightarrow> index example_X_train = []) \<and>
        (\<forall>n \<in> set (categorical_features (preprocess example_X_train))
              \<union> set (numeric_features (preprocess example_X_train)).
           lookup_col n (columns example_train) = lookup_col n (columns example_X_train))"
    by (simp add: preprocess_def example_train_def example_X_train_def lookup_col_def)
  from T [THEN conjunct2, THEN conjunct2, THEN conjunct1, rule_format, of example_train] same
  have "ct_fit (preprocess example_X_train) example_train
      = ct_fit (preprocess example_X_train) example_X_train"
    by blast
  then have 3: "ct_fit (preprocess example_X_train) example_train = Inr example_fitted"
    by (simp add: example_fit)
  have d: "predict dummy (61 / 4)
             [[Some 1, Some 0, Some 0, Some 0, Some (- 1), Some 0, Some (- 1)],
              [Some 0, Some 1, Some 0, Some 0, Some 1, Some 0, Some 1]]
           = Inr [61 / 4, 61 / 4]"
    by (simp add: dummy_def)
  have e: "mean_squared_error (cells (col example_y_validation_off)) [61 / 4, 61 / 4]
      = Inr (25 / 4)"
    by (simp add: mean_squared_error_def numeric_targets_def example_y_validation_off_def
        power2_eq_square)
  have e0: "mean_squared_error (cells (col example_y_validation)) [61 / 4, 61 / 4] = Inr 0"
    by (simp add: mean_squared_error_def numeric_targets_def example_y_validation_def)
  have s: "sqrt (25 / 4) = 5 / 2"
    by (rule real_sqrt_unique) (simp_all add: power2_eq_square)
  have "round_half_even (5 / 2) = 2"
    by (simp add: round_half_even_def)
  then have r: "2 = round_half_even (sqrt (25 / 4))"
    unfolding s by simp
  have r0: "0 = round_half_even (sqrt 0)"
    by (simp add: round_half_even_zero)
  from T [THEN conjunct2, THEN conjunct2, THEN conjunct2, THEN conjunct1]
  obtain fitted where one: "\<forall>(X_validation :: stamp frame) y_validation r.
        compare_models dummy example_X_train example_y_train X_validation y_validation = Inr r \<longleftrightarrow>
        pipeline_fit (preprocess example_X_train) dummy example_X_train example_y_train
          = Inr fitted \<and>
        (\<exists>M y_pred MSE.
           ct_transform (fst fitted) X_validation = Inr M \<and>
           predict dummy (snd fitted) M = Inr y_pred \<and>
           mean_squared_error (cells (col y_validation)) y_pred = Inr MSE \<and>
           r = round_half_even (sqrt MSE))"
    by blast
  have "pipeline_predict dummy (example_fitted, 61 / 4) example_X_validation
           = Inr [61 / 4, 61 / 4]"
    by (simp add: pipeline_predict_def example_validation_matrix dummy_def)
  with 1 e r have 4: "compare_models dummy example_X_train example_y_train example_X_validation
     example_y_validation_off = Inr 2"
    unfolding compare_models_Inr by blast
  with one [rule_format, of example_X_validation example_y_validation_off 2]
  have "pipeline_fit (preprocess example_X_train) dummy example_X_train example_y_train
          = Inr fitted"
    by blast
  with 1 have fitted: "fitted = (example_fitted, 61 / 4)"
    by simp
  have "\<exists>M y_pred MSE.
           ct_transform (fst fitted) example_X_validation = Inr M \<and>
           predict dummy (snd fitted) M = Inr y_pred \<and>
           mean_squared_error (cells (col example_y_validation)) y_pred = Inr MSE \<and>
           0 = round_half_even (sqrt MSE)"
    unfolding fitted fst_conv snd_conv using example_validation_matrix d e0 r0 by blast
  with one [rule_format, of example_X_validation example_y_validation 0] 1 fitted
  have 5: "compare_models dummy example_X_train example_y_train example_X_validation
     example_y_validation = Inr 0"
    by blast
  from 1 v 3 example_validation_matrix d e 4 e0 5 show ?thesis
    by (intro conjI)
qed

section \<open>Claims about the feature ablation\<close>















end
